theory Spec2Isabelle
  imports Main "HOL-Library.Word"
begin

unbundle bit_operations_syntax

chapter \<open>The Hail type algebra of \<^verbatim>\<open>hail/expr/types.py\<close>\<close>

text \<open>
  A shallow embedding of \<^verbatim>\<open>src/hail/python/hail/expr/types.py\<close>: the classes of
  Hail types as one datatype, their equality \<^verbatim>\<open>__eq__\<close>/\<^verbatim>\<open>_eq\<close>, unification over the
  registry of named boxes, the JSON conversion, the value check \<^verbatim>\<open>typecheck\<close>, the printer
  \<^verbatim>\<open>__str__\<close> and the grammar that \<^verbatim>\<open>dtype\<close> parses. Python exceptions are values of
  the type \<open>error\<close>; the mutable registry \<^verbatim>\<open>Box.named_boxes\<close> and the boxes it holds are
  an explicit state that every operation takes and returns.
\<close>

section \<open>Types\<close>

text \<open>
  Modelled from the spec: \<^verbatim>\<open>hail.expr.nat\<close> (\<^verbatim>\<open>NatBase\<close>, \<^verbatim>\<open>NatLiteral\<close>) is imported by
  \<^verbatim>\<open>types.py\<close> but is not among the sources. The rank of an ndarray type is "a concrete
  natural number or unresolved": \<open>NatLiteral n\<close> is the concrete rank that
  \<^verbatim>\<open>tndarray.__init__\<close> builds from an \<^verbatim>\<open>int\<close> and whose attribute \<^verbatim>\<open>n\<close> the property
  \<^verbatim>\<open>ndim\<close> reads; \<open>NatVariable\<close> is a rank that is not resolved yet.
\<close>

datatype nat_base = NatLiteral nat | NatVariable string

text \<open>The keys of \<^verbatim>\<open>tvariable._cond_map\<close>.\<close>

datatype cond =
  Numeric | CInt32 | CInt64 | CFloat32 | CFloat64 | CLocus | CStruct | CUnion | CTuple

text \<open>
  One constructor per class of \<^verbatim>\<open>types.py\<close>. \<^verbatim>\<open>tstruct\<close> and \<^verbatim>\<open>tunion\<close> keep their fields
  in a Python \<^verbatim>\<open>dict\<close> built from keyword arguments: an association list in insertion
  order, whose names are pairwise distinct in every type the program can build.
  \<^verbatim>\<open>tlocus\<close> carries the name of its reference genome. A \<^verbatim>\<open>tvariable\<close> has the attributes
  \<^verbatim>\<open>name\<close>, \<^verbatim>\<open>cond\<close> (\<open>None\<close> when the constructor's \<^verbatim>\<open>cond\<close> is falsy) and \<^verbatim>\<open>box\<close>, a
  reference to a \<^verbatim>\<open>Box\<close> object: the address of the box in the heap of \<open>state\<close> below.
\<close>

datatype hailtype =
    TVoid
  | TInt32
  | TInt64
  | TFloat32
  | TFloat64
  | TStr
  | TBool
  | TNDArray hailtype nat_base
  | TArray hailtype
  | TSet hailtype
  | TDict hailtype hailtype
  | TStruct "(string \<times> hailtype) list"
  | TUnion "(string \<times> hailtype) list"
  | TTuple "hailtype list"
  | TCall
  | TLocus string
  | TInterval hailtype
  | TVariable string "cond option" nat

text \<open>
  What a Python boolean expression of this file returns: \<^verbatim>\<open>True\<close>, \<^verbatim>\<open>False\<close>, or \<^verbatim>\<open>None\<close>
  (the inherited \<^verbatim>\<open>HailType._eq\<close> has the body \<^verbatim>\<open>return\<close>). \<^verbatim>\<open>a and b\<close> is \<^verbatim>\<open>b\<close> when
  \<^verbatim>\<open>a\<close> is truthy and \<^verbatim>\<open>a\<close> otherwise.
\<close>

type_synonym pyres = "bool option"

definition truthy :: "pyres \<Rightarrow> bool" where
  "truthy r = (r = Some True)"

definition py_and :: "pyres \<Rightarrow> pyres \<Rightarrow> pyres" where
  "py_and a b = (if truthy a then b else a)"

text \<open>
  \<^verbatim>\<open>HailType.__eq__\<close>: \<^verbatim>\<open>isinstance(other, HailType) and self._eq(other)\<close>, with the \<^verbatim>\<open>_eq\<close>
  of each class; \<open>other\<close> is a Hail type here, so the result is that of \<^verbatim>\<open>_eq\<close>.
  \<^verbatim>\<open>tstruct._eq\<close> compares the tuples of names and then \<^verbatim>\<open>self[f] == other[f]\<close> for each
  name \<^verbatim>\<open>f\<close> of \<^verbatim>\<open>self\<close>: the type that \<^verbatim>\<open>self\<close> pairs with \<^verbatim>\<open>f\<close> against the one looked up
  by name in \<^verbatim>\<open>other\<close>. \<^verbatim>\<open>tndarray._eq\<close> does not read \<^verbatim>\<open>_ndim\<close>. \<^verbatim>\<open>tvariable\<close> defines no
  \<^verbatim>\<open>_eq\<close> and inherits the one that returns \<^verbatim>\<open>None\<close>.
\<close>

fun hail_eq :: "hailtype \<Rightarrow> hailtype \<Rightarrow> pyres" where
  "hail_eq TVoid other = Some (other = TVoid)"
| "hail_eq TInt32 other = Some (other = TInt32)"
| "hail_eq TInt64 other = Some (other = TInt64)"
| "hail_eq TFloat32 other = Some (other = TFloat32)"
| "hail_eq TFloat64 other = Some (other = TFloat64)"
| "hail_eq TStr other = Some (other = TStr)"
| "hail_eq TBool other = Some (other = TBool)"
| "hail_eq (TNDArray e n) other =
     (case other of TNDArray e' n' \<Rightarrow> hail_eq e e' | _ \<Rightarrow> Some False)"
| "hail_eq (TArray e) other =
     (case other of TArray e' \<Rightarrow> hail_eq e e' | _ \<Rightarrow> Some False)"
| "hail_eq (TSet e) other =
     (case other of TSet e' \<Rightarrow> hail_eq e e' | _ \<Rightarrow> Some False)"
| "hail_eq (TDict k v) other =
     (case other of
        TDict k' v' \<Rightarrow> py_and (hail_eq k k') (hail_eq v v')
      | _ \<Rightarrow> Some False)"
| "hail_eq (TStruct fs) other =
     (case other of
        TStruct gs \<Rightarrow>
          Some (map fst fs = map fst gs \<and>
                (\<forall>(f, t) \<in> set fs.
                   case map_of gs f of Some u \<Rightarrow> truthy (hail_eq t u) | None \<Rightarrow> False))
      | _ \<Rightarrow> Some False)"
| "hail_eq (TUnion fs) other =
     (case other of
        TUnion gs \<Rightarrow>
          Some (map fst fs = map fst gs \<and>
                (\<forall>(f, t) \<in> set fs.
                   case map_of gs f of Some u \<Rightarrow> truthy (hail_eq t u) | None \<Rightarrow> False))
      | _ \<Rightarrow> Some False)"
| "hail_eq (TTuple ts) other =
     (case other of
        TTuple us \<Rightarrow>
          Some (length ts = length us \<and> list_all2 (\<lambda>t u. truthy (hail_eq t u)) ts us)
      | _ \<Rightarrow> Some False)"
| "hail_eq TCall other = Some (other = TCall)"
| "hail_eq (TLocus rg) other =
     (case other of TLocus rg' \<Rightarrow> Some (rg = rg') | _ \<Rightarrow> Some False)"
| "hail_eq (TInterval p) other =
     (case other of TInterval p' \<Rightarrow> hail_eq p p' | _ \<Rightarrow> Some False)"
| "hail_eq (TVariable name c b) other = None"

section \<open>Boxes, type variables and unification\<close>

text \<open>The Python exceptions that the modelled code raises.\<close>

datatype error =
    NameError
  | AssertionError
  | TypeError
  | AttributeError
  | KeyError
  | ValueError
  | OverflowError
  | IndexError
  | ParseError

text \<open>
  The mutable state of the module. \<^verbatim>\<open>Box.named_boxes\<close> maps a name to a \<^verbatim>\<open>Box\<close> object;
  objects are addresses, \<open>heap\<close> gives the attribute \<^verbatim>\<open>value\<close> of the box at an address
  (\<open>None\<close> when the box has no such attribute, as \<^verbatim>\<open>hasattr(self, 'value')\<close> tests), and
  \<open>next_box\<close> is the first address no \<^verbatim>\<open>Box()\<close> has been given yet. Nothing in the file
  removes an entry of \<^verbatim>\<open>named_boxes\<close>.
\<close>

record state =
  named_boxes :: "string \<rightharpoonup> nat"
  heap :: "nat \<Rightarrow> hailtype option"
  next_box :: nat

text \<open>The state when the module has been loaded: \<^verbatim>\<open>named_boxes = {}\<close>.\<close>

definition empty_state :: state where
  "empty_state = \<lparr>named_boxes = Map.empty, heap = (\<lambda>_. None), next_box = 0\<rparr>"

text \<open>\<^verbatim>\<open>Box.from_name\<close>: the box registered under the name, or a new one, registered.\<close>

definition from_name :: "string \<Rightarrow> state \<Rightarrow> nat \<times> state" where
  "from_name name s =
     (case named_boxes s name of
        Some b \<Rightarrow> (b, s)
      | None \<Rightarrow>
          (next_box s,
           s\<lparr>named_boxes := (named_boxes s)(name \<mapsto> next_box s),
             heap := (heap s)(next_box s := None),
             next_box := Suc (next_box s)\<rparr>))"

text \<open>\<^verbatim>\<open>Box.unify\<close>, \<^verbatim>\<open>Box.clear\<close> and \<^verbatim>\<open>Box.get\<close>.\<close>

definition box_unify :: "nat \<Rightarrow> hailtype \<Rightarrow> state \<Rightarrow> pyres \<times> state" where
  "box_unify b v s =
     (case heap s b of
        Some val \<Rightarrow> (hail_eq val v, s)
      | None \<Rightarrow> (Some True, s\<lparr>heap := (heap s)(b := Some v)\<rparr>))"

definition box_clear :: "nat \<Rightarrow> state \<Rightarrow> state" where
  "box_clear b s = s\<lparr>heap := (heap s)(b := None)\<rparr>"

definition box_get :: "nat \<Rightarrow> state \<Rightarrow> error + hailtype" where
  "box_get b s = (case heap s b of Some val \<Rightarrow> Inr val | None \<Rightarrow> Inl AssertionError)"

text \<open>
  \<^verbatim>\<open>is_numeric\<close>: the class of the type is one of \<^verbatim>\<open>_numeric_types\<close>, which holds
  \<^verbatim>\<open>_tbool\<close> beside the four number classes.
\<close>

definition is_numeric :: "hailtype \<Rightarrow> bool" where
  "is_numeric t = (t \<in> {TBool, TInt32, TInt64, TFloat32, TFloat64})"

text \<open>\<^verbatim>\<open>tvariable._cond_map\<close>: the predicate of each key, with what it returns.\<close>

fun cond_map :: "cond \<Rightarrow> hailtype \<Rightarrow> pyres" where
  "cond_map Numeric x = Some (is_numeric x)"
| "cond_map CInt32 x = hail_eq x TInt32"
| "cond_map CInt64 x = hail_eq x TInt64"
| "cond_map CFloat32 x = hail_eq x TFloat32"
| "cond_map CFloat64 x = hail_eq x TFloat64"
| "cond_map CLocus x = Some (case x of TLocus _ \<Rightarrow> True | _ \<Rightarrow> False)"
| "cond_map CStruct x = Some (case x of TStruct _ \<Rightarrow> True | _ \<Rightarrow> False)"
| "cond_map CUnion x = Some (case x of TUnion _ \<Rightarrow> True | _ \<Rightarrow> False)"
| "cond_map CTuple x = Some (case x of TTuple _ \<Rightarrow> True | _ \<Rightarrow> False)"

text \<open>The test \<^verbatim>\<open>self.condf and not self.condf(t)\<close> of \<^verbatim>\<open>tvariable.unify\<close>.\<close>

definition condf_rejects :: "cond option \<Rightarrow> hailtype \<Rightarrow> bool" where
  "condf_rejects c t = (case c of None \<Rightarrow> False | Some cd \<Rightarrow> \<not> truthy (cond_map cd t))"

text \<open>\<^verbatim>\<open>tvariable.__init__\<close>: the new variable holds the box \<^verbatim>\<open>Box.from_name(name)\<close>.\<close>

definition tvariable :: "string \<Rightarrow> cond option \<Rightarrow> state \<Rightarrow> hailtype \<times> state" where
  "tvariable name c s = (case from_name name s of (b, s') \<Rightarrow> (TVariable name c b, s'))"

text \<open>
  \<^verbatim>\<open>unify\<close> of every class. An exception leaves the state as it is at that moment.
  \<^verbatim>\<open>tndarray.unify\<close> ends with \<^verbatim>\<open>self._ndim.unify(t._ndim)\<close>, a method of \<^verbatim>\<open>hail.expr.nat\<close>
  that is not among the sources: it is the parameter \<open>nu\<close>. \<^verbatim>\<open>tstruct.unify\<close> and
  \<^verbatim>\<open>ttuple.unify\<close> run over \<^verbatim>\<open>zip\<close> of the two sequences and return \<^verbatim>\<open>False\<close> at the first
  pair that fails (\<open>unify_fields\<close>, \<open>unify_types\<close>). \<^verbatim>\<open>tunion.unify\<close> starts with
  \<^verbatim>\<open>isinstance(t, union)\<close>; the module neither defines nor imports a name \<^verbatim>\<open>union\<close>, so
  evaluating the argument raises \<^verbatim>\<open>NameError\<close>.
\<close>

type_synonym 'a result = "(error + 'a) \<times> state"

fun unify ::
    "(nat_base \<Rightarrow> nat_base \<Rightarrow> state \<Rightarrow> pyres result) \<Rightarrow>
     hailtype \<Rightarrow> hailtype \<Rightarrow> state \<Rightarrow> pyres result"
and unify_fields ::
    "(nat_base \<Rightarrow> nat_base \<Rightarrow> state \<Rightarrow> pyres result) \<Rightarrow>
     (string \<times> hailtype) list \<Rightarrow> (string \<times> hailtype) list \<Rightarrow> state \<Rightarrow> pyres result"
and unify_types ::
    "(nat_base \<Rightarrow> nat_base \<Rightarrow> state \<Rightarrow> pyres result) \<Rightarrow>
     hailtype list \<Rightarrow> hailtype list \<Rightarrow> state \<Rightarrow> pyres result"
where
  "unify nu TVoid t s = (Inr (hail_eq t TVoid), s)"
| "unify nu TInt32 t s = (Inr (hail_eq t TInt32), s)"
| "unify nu TInt64 t s = (Inr (hail_eq t TInt64), s)"
| "unify nu TFloat32 t s = (Inr (hail_eq t TFloat32), s)"
| "unify nu TFloat64 t s = (Inr (hail_eq t TFloat64), s)"
| "unify nu TStr t s = (Inr (hail_eq t TStr), s)"
| "unify nu TBool t s = (Inr (hail_eq t TBool), s)"
| "unify nu (TNDArray e n) t s =
     (case t of
        TNDArray e' n' \<Rightarrow>
          (case unify nu e e' s of
             (Inl err, s') \<Rightarrow> (Inl err, s')
           | (Inr r, s') \<Rightarrow> if truthy r then nu n n' s' else (Inr r, s'))
      | _ \<Rightarrow> (Inr (Some False), s))"
| "unify nu (TArray e) t s =
     (case t of TArray e' \<Rightarrow> unify nu e e' s | _ \<Rightarrow> (Inr (Some False), s))"
| "unify nu (TSet e) t s =
     (case t of TSet e' \<Rightarrow> unify nu e e' s | _ \<Rightarrow> (Inr (Some False), s))"
| "unify nu (TDict k v) t s =
     (case t of
        TDict k' v' \<Rightarrow>
          (case unify nu k k' s of
             (Inl err, s') \<Rightarrow> (Inl err, s')
           | (Inr r, s') \<Rightarrow> if truthy r then unify nu v v' s' else (Inr r, s'))
      | _ \<Rightarrow> (Inr (Some False), s))"
| "unify nu (TStruct fs) t s =
     (case t of
        TStruct gs \<Rightarrow>
          if length fs = length gs then unify_fields nu fs gs s else (Inr (Some False), s)
      | _ \<Rightarrow> (Inr (Some False), s))"
| "unify nu (TUnion fs) t s = (Inl NameError, s)"
| "unify nu (TTuple ts) t s =
     (case t of
        TTuple us \<Rightarrow>
          if length ts = length us then unify_types nu ts us s else (Inr (Some False), s)
      | _ \<Rightarrow> (Inr (Some False), s))"
| "unify nu TCall t s = (Inr (hail_eq t TCall), s)"
| "unify nu (TLocus rg) t s =
     (case t of
        TLocus rg' \<Rightarrow> (Inr (Some (rg = rg')), s)
      | _ \<Rightarrow> (Inr (Some False), s))"
| "unify nu (TInterval p) t s =
     (case t of TInterval p' \<Rightarrow> unify nu p p' s | _ \<Rightarrow> (Inr (Some False), s))"
| "unify nu (TVariable name c b) t s =
     (if condf_rejects c t then (Inr (Some False), s)
      else (case box_unify b t s of (r, s') \<Rightarrow> (Inr r, s')))"
| "unify_fields nu ((f1, t1) # fs) ((f2, t2) # gs) s =
     (if f1 = f2 then
        (case unify nu t1 t2 s of
           (Inl err, s') \<Rightarrow> (Inl err, s')
         | (Inr r, s') \<Rightarrow>
             if truthy r then unify_fields nu fs gs s' else (Inr (Some False), s'))
      else (Inr (Some False), s))"
| "unify_fields nu _ _ s = (Inr (Some True), s)"
| "unify_types nu (t1 # ts) (t2 # us) s =
     (case unify nu t1 t2 s of
        (Inl err, s') \<Rightarrow> (Inl err, s')
      | (Inr r, s') \<Rightarrow>
          if truthy r then unify_types nu ts us s' else (Inr (Some False), s'))"
| "unify_types nu _ _ s = (Inr (Some True), s)"

text \<open>
  \<^verbatim>\<open>clear\<close> of every class; \<^verbatim>\<open>tndarray.clear\<close> ends with \<^verbatim>\<open>self._ndim.clear()\<close> of
  \<^verbatim>\<open>hail.expr.nat\<close>, the parameter \<open>nc\<close>.
\<close>

fun clear :: "(nat_base \<Rightarrow> state \<Rightarrow> state) \<Rightarrow> hailtype \<Rightarrow> state \<Rightarrow> state" where
  "clear nc (TNDArray e n) s = nc n (clear nc e s)"
| "clear nc (TArray e) s = clear nc e s"
| "clear nc (TSet e) s = clear nc e s"
| "clear nc (TDict k v) s = clear nc v (clear nc k s)"
| "clear nc (TStruct fs) s = fold (\<lambda>(f, t) s'. clear nc t s') fs s"
| "clear nc (TUnion fs) s = fold (\<lambda>(f, t) s'. clear nc t s') fs s"
| "clear nc (TTuple ts) s = fold (\<lambda>t s'. clear nc t s') ts s"
| "clear nc (TInterval p) s = clear nc p s"
| "clear nc (TVariable name c b) s = box_clear b s"
| "clear nc _ s = s"

section \<open>Python values\<close>

text \<open>
  The values that cross the interface: \<^verbatim>\<open>None\<close>, the builtin scalars and containers (also
  what \<^verbatim>\<open>json.loads\<close> returns: a JSON object is a \<^verbatim>\<open>dict\<close> with string keys, a JSON array a
  \<^verbatim>\<open>list\<close>), and the objects of the classes that \<^verbatim>\<open>types.py\<close> tests with \<^verbatim>\<open>isinstance\<close>.
  A \<^verbatim>\<open>float\<close> is its 64 bits (IEEE 754 binary64, as CPython stores it). A \<^verbatim>\<open>set\<close> and a
  \<^verbatim>\<open>dict\<close> are the list of their elements in iteration order.

  Modelled from the spec: the classes \<^verbatim>\<open>hail.utils.Struct\<close>, \<^verbatim>\<open>hail.utils.Interval\<close>,
  \<^verbatim>\<open>hail.genetics.Locus\<close> and \<^verbatim>\<open>hail.genetics.Call\<close> and numpy's \<^verbatim>\<open>ndarray\<close> are outside the
  sources ("consumed only as opaque values to validate against"). A value of one of them
  carries the attributes that \<^verbatim>\<open>types.py\<close> reads: the fields of a \<^verbatim>\<open>Struct\<close>; \<^verbatim>\<open>contig\<close>,
  \<^verbatim>\<open>position\<close> and the name of the \<^verbatim>\<open>reference_genome\<close> of a \<^verbatim>\<open>Locus\<close>; \<^verbatim>\<open>start\<close>, \<^verbatim>\<open>end\<close>,
  \<^verbatim>\<open>includes_start\<close>, \<^verbatim>\<open>includes_end\<close> and \<^verbatim>\<open>point_type\<close> of an \<^verbatim>\<open>Interval\<close>; the alleles and
  the phasing of a \<^verbatim>\<open>Call\<close>; \<^verbatim>\<open>shape\<close>, \<^verbatim>\<open>strides\<close> and the flattened elements
  (\<^verbatim>\<open>x.reshape(x.size).tolist()\<close>) of an \<^verbatim>\<open>ndarray\<close>.
\<close>

datatype pyval =
    VNone
  | VBool bool
  | VInt int
  | VFloat "64 word"
  | VStr string
  | VList "pyval list"
  | VTuple "pyval list"
  | VSet "pyval list"
  | VDict "(pyval \<times> pyval) list"
  | VStruct "(string \<times> pyval) list"
  | VLocus string int string
  | VInterval pyval pyval bool bool hailtype
  | VCall "int list" bool
  | VNDArray "int list" "int list" "pyval list"

text \<open>
  What runs outside the sources and is not modelled: the record holds it as parameters,
  and every theorem below holds for every value of the record.
  \<^item> \<open>float_of_int n\<close>: \<^verbatim>\<open>float(n)\<close> of an \<^verbatim>\<open>int\<close>; \<open>None\<close> is \<^verbatim>\<open>OverflowError\<close>.
  \<^item> \<open>float_of_literal s\<close>: \<^verbatim>\<open>float(s)\<close> of a string that spells neither an infinity nor a
    NaN; \<open>None\<close> is \<^verbatim>\<open>ValueError\<close>.
  \<^item> \<open>py_str x\<close>: \<^verbatim>\<open>str(x)\<close> where \<^verbatim>\<open>tcall._convert_to_json\<close> calls it.
  \<^item> \<open>call_parse x\<close>: \<^verbatim>\<open>hl.Call._from_java(hl.Call._call_jobject().parse(x))\<close>.
  \<^item> \<open>locus_new c p rg\<close>: \<^verbatim>\<open>genetics.Locus(c, p, reference_genome=rg)\<close>.
  \<^item> \<open>interval_new a b c d\<close>: \<^verbatim>\<open>Interval(a, b, c, d)\<close>.
  \<^item> \<open>np_bool x\<close>, \<open>np_iter x\<close>, \<open>np_getitem x k\<close>: the truth value of an \<^verbatim>\<open>ndarray\<close>, its
    iteration and \<^verbatim>\<open>x[k]\<close>.
  \<^item> \<open>np_nditer x\<close>: \<^verbatim>\<open>[elt.item() for elt in np.nditer(x)]\<close>.
  \<^item> \<open>np_array t data\<close>: \<^verbatim>\<open>np.array(data, dtype=T)\<close> with \<^verbatim>\<open>T = t.to_numpy()\<close>.
  \<^item> \<open>np_ndarray t shape buffer strides\<close>: \<^verbatim>\<open>np.ndarray(shape=shape, buffer=buffer,
    strides=strides, dtype=T)\<close>.
\<close>

record externals =
  float_of_int :: "int \<Rightarrow> 64 word option"
  float_of_literal :: "string \<Rightarrow> 64 word option"
  py_str :: "pyval \<Rightarrow> string"
  call_parse :: "pyval \<Rightarrow> error + pyval"
  locus_new :: "pyval \<Rightarrow> pyval \<Rightarrow> string \<Rightarrow> error + pyval"
  interval_new :: "pyval \<Rightarrow> pyval \<Rightarrow> pyval \<Rightarrow> pyval \<Rightarrow> error + pyval"
  np_bool :: "pyval \<Rightarrow> error + bool"
  np_iter :: "pyval \<Rightarrow> error + pyval list"
  np_getitem :: "pyval \<Rightarrow> pyval \<Rightarrow> error + pyval"
  np_nditer :: "pyval \<Rightarrow> error + pyval list"
  np_array :: "hailtype \<Rightarrow> pyval \<Rightarrow> error + pyval"
  np_ndarray :: "hailtype \<Rightarrow> pyval \<Rightarrow> pyval \<Rightarrow> pyval \<Rightarrow> error + pyval"

subsection \<open>Sequencing of computations that may raise\<close>

definition bind_err :: "error + 'a \<Rightarrow> ('a \<Rightarrow> error + 'b) \<Rightarrow> error + 'b" where
  "bind_err m f = (case m of Inl e \<Rightarrow> Inl e | Inr x \<Rightarrow> f x)"

text \<open>A comprehension over a list: the elements in order, stopping at the first exception.\<close>

fun mapM :: "('a \<Rightarrow> error + 'b) \<Rightarrow> 'a list \<Rightarrow> error + 'b list" where
  "mapM f [] = Inr []"
| "mapM f (x # xs) =
     (case f x of
        Inl e \<Rightarrow> Inl e
      | Inr y \<Rightarrow> (case mapM f xs of Inl e \<Rightarrow> Inl e | Inr ys \<Rightarrow> Inr (y # ys)))"

text \<open>A loop over a list that updates an accumulator, stopping at the first exception.\<close>

fun foldM :: "('a \<Rightarrow> 's \<Rightarrow> error + 's) \<Rightarrow> 'a list \<Rightarrow> 's \<Rightarrow> error + 's" where
  "foldM f [] acc = Inr acc"
| "foldM f (x # xs) acc = (case f x acc of Inl e \<Rightarrow> Inl e | Inr acc' \<Rightarrow> foldM f xs acc')"

subsection \<open>Floats\<close>

text \<open>
  \<^verbatim>\<open>math.isfinite\<close> on a \<^verbatim>\<open>float\<close>: the eleven exponent bits are not all set. The two
  infinities and the NaN that \<^verbatim>\<open>float('nan')\<close> returns; every other float that is not
  finite is a NaN too.
\<close>

definition isfinite64 :: "64 word \<Rightarrow> bool" where
  "isfinite64 w = (take_bit 11 (drop_bit 52 w) \<noteq> (2047 :: 64 word))"

definition pos_inf :: "64 word" where "pos_inf = 0x7FF0000000000000"
definition neg_inf :: "64 word" where "neg_inf = 0xFFF0000000000000"
definition quiet_nan :: "64 word" where "quiet_nan = 0x7FF8000000000000"
definition neg_quiet_nan :: "64 word" where "neg_quiet_nan = 0xFFF8000000000000"

definition isnan64 :: "64 word \<Rightarrow> bool" where
  "isnan64 w = (\<not> isfinite64 w \<and> w \<noteq> pos_inf \<and> w \<noteq> neg_inf)"

text \<open>\<^verbatim>\<open>str(x)\<close> of a float that is not finite: \<^verbatim>\<open>'inf'\<close>, \<^verbatim>\<open>'-inf'\<close> or \<^verbatim>\<open>'nan'\<close>.\<close>

definition str_nonfinite :: "64 word \<Rightarrow> string" where
  "str_nonfinite w =
     (if w = pos_inf then ''inf'' else if w = neg_inf then ''-inf'' else ''nan'')"

text \<open>
  \<^verbatim>\<open>math.isfinite(x)\<close>: a \<^verbatim>\<open>float\<close> by its bits; an \<^verbatim>\<open>int\<close> is converted first
  (\<^verbatim>\<open>OverflowError\<close> when it is too large), a \<^verbatim>\<open>bool\<close> is 0 or 1; anything else is a
  \<^verbatim>\<open>TypeError\<close>.
\<close>

definition math_isfinite :: "externals \<Rightarrow> pyval \<Rightarrow> error + bool" where
  "math_isfinite ext x =
     (case x of
        VFloat w \<Rightarrow> Inr (isfinite64 w)
      | VInt n \<Rightarrow> (case float_of_int ext n of None \<Rightarrow> Inl OverflowError | Some w \<Rightarrow> Inr (isfinite64 w))
      | VBool b \<Rightarrow> Inr True
      | _ \<Rightarrow> Inl TypeError)"

text \<open>
  \<^verbatim>\<open>float(x)\<close>. On a string, surrounding whitespace and case do not count, and
  \<^verbatim>\<open>inf\<close>, \<^verbatim>\<open>infinity\<close> and \<^verbatim>\<open>nan\<close> with an optional sign spell the values that are not
  finite; other strings are number literals. A character of a string is a code point
  below 256; the whitespace among them is U+0009 to U+000D, U+001C to U+0020, U+0085
  and U+00A0.
\<close>

definition is_space :: "char \<Rightarrow> bool" where
  "is_space c =
     (let n = (of_char c :: nat)
      in (9 \<le> n \<and> n \<le> 13) \<or> (28 \<le> n \<and> n \<le> 32) \<or> n = 133 \<or> n = 160)"

definition strip :: "string \<Rightarrow> string" where
  "strip s = rev (dropWhile is_space (rev (dropWhile is_space s)))"

definition lower :: "char \<Rightarrow> char" where
  "lower c =
     (let n = (of_char c :: nat) in if 65 \<le> n \<and> n \<le> 90 then char_of (n + 32) else c)"

definition float_of_str :: "externals \<Rightarrow> string \<Rightarrow> error + 64 word" where
  "float_of_str ext s =
     (let t = map lower (strip s) in
      if t \<in> {''inf'', ''+inf'', ''infinity'', ''+infinity''} then Inr pos_inf
      else if t \<in> {''-inf'', ''-infinity''} then Inr neg_inf
      else if t \<in> {''nan'', ''+nan''} then Inr quiet_nan
      else if t = ''-nan'' then Inr neg_quiet_nan
      else (case float_of_literal ext s of None \<Rightarrow> Inl ValueError | Some w \<Rightarrow> Inr w))"

definition py_float :: "externals \<Rightarrow> pyval \<Rightarrow> error + pyval" where
  "py_float ext x =
     (case x of
        VFloat w \<Rightarrow> Inr (VFloat w)
      | VInt n \<Rightarrow> (case float_of_int ext n of None \<Rightarrow> Inl OverflowError | Some w \<Rightarrow> Inr (VFloat w))
      | VBool b \<Rightarrow> Inr (VFloat (if b then 0x3FF0000000000000 else 0))
      | VStr s \<Rightarrow> (case float_of_str ext s of Inl e \<Rightarrow> Inl e | Inr w \<Rightarrow> Inr (VFloat w))
      | _ \<Rightarrow> Inl TypeError)"

subsection \<open>Operations of Python on the values\<close>

text \<open>
  The truth value \<^verbatim>\<open>bool(x)\<close>, as \<^verbatim>\<open>if annotation:\<close> takes it: \<^verbatim>\<open>None\<close>, \<^verbatim>\<open>False\<close>, zero and
  the empty string and containers are falsy; a \<^verbatim>\<open>Struct\<close> is a \<^verbatim>\<open>Mapping\<close> and is falsy when
  it has no field; the truth value of an \<^verbatim>\<open>ndarray\<close> is numpy's and may raise.
\<close>

definition py_bool :: "externals \<Rightarrow> pyval \<Rightarrow> error + bool" where
  "py_bool ext x =
     (case x of
        VNone \<Rightarrow> Inr False
      | VBool b \<Rightarrow> Inr b
      | VInt n \<Rightarrow> Inr (n \<noteq> 0)
      | VFloat w \<Rightarrow> Inr (w \<noteq> 0 \<and> w \<noteq> 0x8000000000000000)
      | VStr s \<Rightarrow> Inr (s \<noteq> [])
      | VList xs \<Rightarrow> Inr (xs \<noteq> [])
      | VTuple xs \<Rightarrow> Inr (xs \<noteq> [])
      | VSet xs \<Rightarrow> Inr (xs \<noteq> [])
      | VDict d \<Rightarrow> Inr (d \<noteq> [])
      | VStruct fs \<Rightarrow> Inr (fs \<noteq> [])
      | VLocus c p rg \<Rightarrow> Inr True
      | VInterval a b is ie pt \<Rightarrow> Inr True
      | VCall alleles phased \<Rightarrow> Inr True
      | VNDArray shape strides data \<Rightarrow> np_bool ext x)"

text \<open>
  \<^verbatim>\<open>for elt in x\<close>: the elements of a list, tuple or set, the characters of a string, the
  keys of a \<^verbatim>\<open>dict\<close> or \<^verbatim>\<open>Struct\<close>, the alleles of a \<^verbatim>\<open>Call\<close> (through its \<^verbatim>\<open>__getitem__\<close>);
  \<^verbatim>\<open>TypeError\<close> on a value that is not iterable.
\<close>

definition py_iter :: "externals \<Rightarrow> pyval \<Rightarrow> error + pyval list" where
  "py_iter ext x =
     (case x of
        VStr s \<Rightarrow> Inr (map (\<lambda>c. VStr [c]) s)
      | VList xs \<Rightarrow> Inr xs
      | VTuple xs \<Rightarrow> Inr xs
      | VSet xs \<Rightarrow> Inr xs
      | VDict d \<Rightarrow> Inr (map fst d)
      | VStruct fs \<Rightarrow> Inr (map (\<lambda>(f, v). VStr f) fs)
      | VCall alleles phased \<Rightarrow> Inr (map VInt alleles)
      | VNDArray shape strides data \<Rightarrow> np_iter ext x
      | _ \<Rightarrow> Inl TypeError)"

text \<open>\<^verbatim>\<open>x.items()\<close>: of a \<^verbatim>\<open>dict\<close> or a \<^verbatim>\<open>Struct\<close>; \<^verbatim>\<open>AttributeError\<close> otherwise.\<close>

definition py_items :: "pyval \<Rightarrow> error + (pyval \<times> pyval) list" where
  "py_items x =
     (case x of
        VDict d \<Rightarrow> Inr d
      | VStruct fs \<Rightarrow> Inr (map (\<lambda>(f, v). (VStr f, v)) fs)
      | _ \<Rightarrow> Inl AttributeError)"

text \<open>
  Keys of a \<^verbatim>\<open>dict\<close> and elements of a \<^verbatim>\<open>set\<close>: lists, sets, dicts and arrays cannot be
  hashed.
\<close>

fun py_hashable :: "pyval \<Rightarrow> bool" where
  "py_hashable (VList xs) = False"
| "py_hashable (VSet xs) = False"
| "py_hashable (VDict d) = False"
| "py_hashable (VNDArray shape strides data) = False"
| "py_hashable (VTuple xs) = list_all py_hashable xs"
| "py_hashable (VStruct fs) = list_all (\<lambda>(f, v). py_hashable v) fs"
| "py_hashable (VInterval a b is ie pt) = (py_hashable a \<and> py_hashable b)"
| "py_hashable _ = True"

text \<open>
  Two keys are the same key when \<^verbatim>\<open>==\<close> holds of them. Numbers are compared by value:
  \<^verbatim>\<open>True\<close> and \<^verbatim>\<open>False\<close> are 1 and 0, a finite float \<open>(-1)^s * M * 2^k\<close> equals the \<^verbatim>\<open>int\<close> of
  the same value, \<^verbatim>\<open>0.0 == -0.0\<close>, and a NaN equals nothing (each NaN that a conversion
  returns is an object of its own). Tuples, and the \<^verbatim>\<open>Struct\<close> and \<^verbatim>\<open>Interval\<close> objects of
  the model, are compared part by part; other values are equal when they are the same
  value.
\<close>

definition as_int :: "pyval \<Rightarrow> int option" where
  "as_int x = (case x of VInt n \<Rightarrow> Some n | VBool b \<Rightarrow> Some (if b then 1 else 0) | _ \<Rightarrow> None)"

definition float_eq :: "64 word \<Rightarrow> 64 word \<Rightarrow> bool" where
  "float_eq a b =
     (\<not> isnan64 a \<and> \<not> isnan64 b \<and> (a = b \<or> (take_bit 63 a = 0 \<and> take_bit 63 b = 0)))"

definition float_int_eq :: "64 word \<Rightarrow> int \<Rightarrow> bool" where
  "float_int_eq w n =
     (isfinite64 w \<and>
      (let e = unat (take_bit 11 (drop_bit 52 w));
           m = unat (take_bit 52 w);
           M = (if e = 0 then int m else int (2 ^ 52 + m));
           S = (if bit w 63 then - M else M);
           k = int (if e = 0 then 1 else e) - 1075
       in if 0 \<le> k then n = S * 2 ^ nat k
          else S mod 2 ^ nat (- k) = 0 \<and> n = S div 2 ^ nat (- k)))"

definition scalar_eq :: "pyval \<Rightarrow> pyval \<Rightarrow> bool" where
  "scalar_eq x y =
     (case (x, y) of
        (VFloat a, VFloat b) \<Rightarrow> float_eq a b
      | (VFloat a, _) \<Rightarrow> (case as_int y of Some n \<Rightarrow> float_int_eq a n | None \<Rightarrow> False)
      | (_, VFloat b) \<Rightarrow> (case as_int x of Some n \<Rightarrow> float_int_eq b n | None \<Rightarrow> False)
      | _ \<Rightarrow>
        (case (as_int x, as_int y) of
           (Some n, Some m) \<Rightarrow> n = m
         | (None, None) \<Rightarrow> x = y
         | _ \<Rightarrow> False))"

fun py_key_eq :: "pyval \<Rightarrow> pyval \<Rightarrow> bool" where
  "py_key_eq (VTuple xs) y =
     (case y of VTuple ys \<Rightarrow> list_all2 py_key_eq xs ys | _ \<Rightarrow> False)"
| "py_key_eq (VStruct fs) y =
     (case y of
        VStruct gs \<Rightarrow>
          map fst fs = map fst gs \<and> list_all2 py_key_eq (map snd fs) (map snd gs)
      | _ \<Rightarrow> False)"
| "py_key_eq (VInterval a b is ie pt) y =
     (case y of
        VInterval a' b' is' ie' pt' \<Rightarrow>
          py_key_eq a a' \<and> py_key_eq b b' \<and> is = is' \<and> ie = ie'
      | _ \<Rightarrow> False)"
| "py_key_eq x y = scalar_eq x y"

text \<open>\<^verbatim>\<open>d[k] = v\<close> and \<^verbatim>\<open>s.add(x)\<close> on the lists in iteration order, and the lookup \<^verbatim>\<open>d[k]\<close>.\<close>

fun dict_set :: "(pyval \<times> pyval) list \<Rightarrow> pyval \<Rightarrow> pyval \<Rightarrow> (pyval \<times> pyval) list" where
  "dict_set [] k v = [(k, v)]"
| "dict_set ((k', v') # d) k v =
     (if py_key_eq k' k then (k', v) # d else (k', v') # dict_set d k v)"

fun dict_lookup :: "(pyval \<times> pyval) list \<Rightarrow> pyval \<Rightarrow> pyval option" where
  "dict_lookup [] k = None"
| "dict_lookup ((k', v') # d) k = (if py_key_eq k' k then Some v' else dict_lookup d k)"

definition set_add :: "pyval list \<Rightarrow> pyval \<Rightarrow> pyval list" where
  "set_add xs x = (if list_ex (\<lambda>y. py_key_eq y x) xs then xs else xs @ [x])"

text \<open>An index into a sequence: negative indices count from the end.\<close>

definition py_index :: "'a list \<Rightarrow> int \<Rightarrow> error + 'a" where
  "py_index xs i =
     (if 0 \<le> i
      then (if nat i < length xs then Inr (xs ! nat i) else Inl IndexError)
      else (if nat (- i) \<le> length xs then Inr (xs ! (length xs - nat (- i)))
            else Inl IndexError))"

definition as_index :: "pyval \<Rightarrow> int option" where
  "as_index k = (case k of VInt i \<Rightarrow> Some i | VBool b \<Rightarrow> Some (if b then 1 else 0) | _ \<Rightarrow> None)"

text \<open>
  \<^verbatim>\<open>x[k]\<close>: a \<^verbatim>\<open>dict\<close> by key (\<^verbatim>\<open>KeyError\<close>), a \<^verbatim>\<open>Struct\<close> by field name
  (\<^verbatim>\<open>KeyError\<close>; \<^verbatim>\<open>TypeError\<close> for a key that is no string), a list, tuple,
  string or \<^verbatim>\<open>Call\<close> by integer index (\<^verbatim>\<open>IndexError\<close>; \<^verbatim>\<open>TypeError\<close> for another kind of
  index); \<^verbatim>\<open>TypeError\<close> on a value that cannot be subscripted.
\<close>

definition py_getitem :: "externals \<Rightarrow> pyval \<Rightarrow> pyval \<Rightarrow> error + pyval" where
  "py_getitem ext x k =
     (case x of
        VDict d \<Rightarrow>
          if py_hashable k
          then (case dict_lookup d k of Some v \<Rightarrow> Inr v | None \<Rightarrow> Inl KeyError)
          else Inl TypeError
      | VStruct fs \<Rightarrow>
          (case k of
             VStr f \<Rightarrow> (case map_of fs f of Some v \<Rightarrow> Inr v | None \<Rightarrow> Inl KeyError)
           | _ \<Rightarrow> Inl TypeError)
      | VList xs \<Rightarrow> (case as_index k of Some i \<Rightarrow> py_index xs i | None \<Rightarrow> Inl TypeError)
      | VTuple xs \<Rightarrow> (case as_index k of Some i \<Rightarrow> py_index xs i | None \<Rightarrow> Inl TypeError)
      | VStr s \<Rightarrow>
          (case as_index k of
             Some i \<Rightarrow> (case py_index s i of Inl e \<Rightarrow> Inl e | Inr c \<Rightarrow> Inr (VStr [c]))
           | None \<Rightarrow> Inl TypeError)
      | VCall alleles phased \<Rightarrow>
          (case as_index k of
             Some i \<Rightarrow> (case py_index alleles i of Inl e \<Rightarrow> Inl e | Inr a \<Rightarrow> Inr (VInt a))
           | None \<Rightarrow> Inl TypeError)
      | VNDArray shape strides data \<Rightarrow> np_getitem ext x k
      | _ \<Rightarrow> Inl TypeError)"

text \<open>\<^verbatim>\<open>x.get(f)\<close> of a \<^verbatim>\<open>dict\<close> or \<^verbatim>\<open>Struct\<close>: \<^verbatim>\<open>None\<close> for a missing key.\<close>

definition py_get :: "pyval \<Rightarrow> string \<Rightarrow> error + pyval" where
  "py_get x f =
     (case x of
        VDict d \<Rightarrow> Inr (case dict_lookup d (VStr f) of Some v \<Rightarrow> v | None \<Rightarrow> VNone)
      | VStruct fs \<Rightarrow> Inr (case map_of fs f of Some v \<Rightarrow> v | None \<Rightarrow> VNone)
      | _ \<Rightarrow> Inl AttributeError)"

section \<open>The JSON conversion\<close>

lemma bind_err_cong [fundef_cong]:
  "m = m' \<Longrightarrow> (\<And>x. m' = Inr x \<Longrightarrow> f x = g x) \<Longrightarrow> bind_err m f = bind_err m' g"
  by (auto simp: bind_err_def split: sum.splits)

lemma mapM_cong [fundef_cong]:
  "xs = ys \<Longrightarrow> (\<And>x. x \<in> set ys \<Longrightarrow> f x = g x) \<Longrightarrow> mapM f xs = mapM g ys"
  by (induction ys arbitrary: xs) (auto split: sum.splits)

lemma foldM_cong [fundef_cong]:
  "xs = ys \<Longrightarrow> a = b \<Longrightarrow> (\<And>x s. x \<in> set ys \<Longrightarrow> f x s = g x s)
   \<Longrightarrow> foldM f xs a = foldM g ys b"
  by (induction ys arbitrary: xs a b) (auto split: sum.splits)

lemma size_field: "(f, t) \<in> set fs \<Longrightarrow> size t < Suc (size_list (size_prod (\<lambda>_. 0) size) fs)"
  by (induction fs) auto

lemma size_elem: "t \<in> set ts \<Longrightarrow> size t < Suc (size_list size ts)"
  by (induction ts) auto

lemma size_zip: "(t, i) \<in> set (zip ts is) \<Longrightarrow> size t < Suc (size_list size ts)"
  by (rule size_elem) (rule set_zip_leftD)

text \<open>The classes that define \<^verbatim>\<open>to_numpy\<close>; on another element type it is an \<^verbatim>\<open>AttributeError\<close>.\<close>

definition has_to_numpy :: "hailtype \<Rightarrow> bool" where
  "has_to_numpy t = (t \<in> {TInt32, TInt64, TFloat32, TFloat64, TBool})"

text \<open>
  \<^verbatim>\<open>_convert_to_json\<close> and \<^verbatim>\<open>_convert_to_json_na\<close>. The classes that do not override
  \<^verbatim>\<open>_convert_to_json\<close> inherit \<^verbatim>\<open>return x\<close>. \<^verbatim>\<open>tdict._convert_to_json\<close> calls
  \<^verbatim>\<open>_convert_to_json\<close> on the keys and the values, where the other containers call
  \<^verbatim>\<open>_convert_to_json_na\<close> on their elements.
\<close>

function (sequential) convert_to_json :: "externals \<Rightarrow> hailtype \<Rightarrow> pyval \<Rightarrow> error + pyval"
and convert_to_json_na :: "externals \<Rightarrow> hailtype \<Rightarrow> pyval \<Rightarrow> error + pyval"
where
  "convert_to_json_na ext t x = (if x = VNone then Inr x else convert_to_json ext t x)"
| "convert_to_json ext TFloat32 x =
     bind_err (math_isfinite ext x) (\<lambda>fin.
       if fin then Inr x
       else Inr (VStr (case x of VFloat w \<Rightarrow> str_nonfinite w | _ \<Rightarrow> py_str ext x)))"
| "convert_to_json ext TFloat64 x =
     bind_err (math_isfinite ext x) (\<lambda>fin.
       if fin then Inr x
       else Inr (VStr (case x of VFloat w \<Rightarrow> str_nonfinite w | _ \<Rightarrow> py_str ext x)))"
| "convert_to_json ext (TNDArray e n) x =
     (case x of
        VNDArray shape strides data \<Rightarrow>
          Inr (VDict [(VStr ''shape'', VTuple (map VInt shape)),
                      (VStr ''strides'', VTuple (map VInt strides)),
                      (VStr ''flags'', VInt 0),
                      (VStr ''data'', VList data),
                      (VStr ''offset'', VInt 0)])
      | _ \<Rightarrow> Inl AttributeError)"
| "convert_to_json ext (TArray e) x =
     bind_err (py_iter ext x) (\<lambda>xs.
       bind_err (mapM (\<lambda>elt. convert_to_json_na ext e elt) xs) (\<lambda>js. Inr (VList js)))"
| "convert_to_json ext (TSet e) x =
     bind_err (py_iter ext x) (\<lambda>xs.
       bind_err (mapM (\<lambda>elt. convert_to_json_na ext e elt) xs) (\<lambda>js. Inr (VList js)))"
| "convert_to_json ext (TDict kt vt) x =
     bind_err (py_items x) (\<lambda>items.
       bind_err
         (mapM (\<lambda>(k, v).
            bind_err (convert_to_json ext kt k) (\<lambda>jk.
              bind_err (convert_to_json ext vt v) (\<lambda>jv.
                Inr (VDict [(VStr ''key'', jk), (VStr ''value'', jv)])))) items)
         (\<lambda>js. Inr (VList js)))"
| "convert_to_json ext (TStruct fs) x =
     bind_err
       (mapM (\<lambda>(f, t).
          bind_err (py_getitem ext x (VStr f)) (\<lambda>v.
            bind_err (convert_to_json_na ext t v) (\<lambda>j. Inr (VStr f, j)))) fs)
       (\<lambda>js. Inr (VDict js))"
| "convert_to_json ext (TTuple ts) x =
     bind_err
       (mapM (\<lambda>(t, i).
          bind_err (py_getitem ext x (VInt (int i))) (\<lambda>v. convert_to_json_na ext t v))
          (zip ts [0 ..< length ts]))
       (\<lambda>js. Inr (VList js))"
| "convert_to_json ext TCall x = Inr (VStr (py_str ext x))"
| "convert_to_json ext (TLocus rg) x =
     (case x of
        VLocus c p rg' \<Rightarrow> Inr (VDict [(VStr ''contig'', VStr c), (VStr ''position'', VInt p)])
      | _ \<Rightarrow> Inl AttributeError)"
| "convert_to_json ext (TInterval p) x =
     (case x of
        VInterval a b is ie pt \<Rightarrow>
          bind_err (convert_to_json_na ext p a) (\<lambda>ja.
            bind_err (convert_to_json_na ext p b) (\<lambda>jb.
              Inr (VDict [(VStr ''start'', ja), (VStr ''end'', jb),
                          (VStr ''includeStart'', VBool is), (VStr ''includeEnd'', VBool ie)])))
      | _ \<Rightarrow> Inl AttributeError)"
| "convert_to_json ext TVoid x = Inr x"
| "convert_to_json ext TInt32 x = Inr x"
| "convert_to_json ext TInt64 x = Inr x"
| "convert_to_json ext TStr x = Inr x"
| "convert_to_json ext TBool x = Inr x"
| "convert_to_json ext (TUnion cs) x = Inr x"
| "convert_to_json ext (TVariable name c b) x = Inr x"
  by pat_completeness auto
termination
  by (relation "measure (\<lambda>p. case p of Inl (ext, t, x) \<Rightarrow> 2 * size t
                                     | Inr (ext, t, x) \<Rightarrow> 2 * size t + 1)")
     (auto dest: size_field size_elem size_zip)

text \<open>
  \<^verbatim>\<open>_convert_from_json\<close> and \<^verbatim>\<open>_convert_from_json_na\<close>. A set and a dict are built by a
  comprehension: each element is converted and then inserted, which raises \<^verbatim>\<open>TypeError\<close>
  when it cannot be hashed. \<^verbatim>\<open>Struct(**d)\<close> is the \<^verbatim>\<open>Struct\<close> with the fields of \<^verbatim>\<open>d\<close>.
\<close>

function (sequential) convert_from_json :: "externals \<Rightarrow> hailtype \<Rightarrow> pyval \<Rightarrow> error + pyval"
and convert_from_json_na :: "externals \<Rightarrow> hailtype \<Rightarrow> pyval \<Rightarrow> error + pyval"
where
  "convert_from_json_na ext t x = (if x = VNone then Inr x else convert_from_json ext t x)"
| "convert_from_json ext TFloat32 x = py_float ext x"
| "convert_from_json ext TFloat64 x = py_float ext x"
| "convert_from_json ext (TNDArray e n) x =
     (if has_to_numpy e then
        bind_err (py_getitem ext x (VStr ''shape'')) (\<lambda>shape.
          bind_err (py_getitem ext x (VStr ''data'')) (\<lambda>data.
            bind_err (np_array ext e data) (\<lambda>buffer.
              bind_err (py_getitem ext x (VStr ''strides'')) (\<lambda>strides.
                np_ndarray ext e shape buffer strides))))
      else Inl AttributeError)"
| "convert_from_json ext (TArray e) x =
     bind_err (py_iter ext x) (\<lambda>xs.
       bind_err (mapM (\<lambda>elt. convert_from_json_na ext e elt) xs) (\<lambda>vs. Inr (VList vs)))"
| "convert_from_json ext (TSet e) x =
     bind_err (py_iter ext x) (\<lambda>xs.
       bind_err
         (foldM (\<lambda>elt acc.
            bind_err (convert_from_json_na ext e elt) (\<lambda>v.
              if py_hashable v then Inr (set_add acc v) else Inl TypeError)) xs [])
         (\<lambda>vs. Inr (VSet vs)))"
| "convert_from_json ext (TDict kt vt) x =
     bind_err (py_iter ext x) (\<lambda>xs.
       bind_err
         (foldM (\<lambda>elt acc.
            bind_err (py_getitem ext elt (VStr ''key'')) (\<lambda>jk.
              bind_err (convert_from_json_na ext kt jk) (\<lambda>k.
                bind_err (py_getitem ext elt (VStr ''value'')) (\<lambda>jv.
                  bind_err (convert_from_json_na ext vt jv) (\<lambda>v.
                    if py_hashable k then Inr (dict_set acc k v) else Inl TypeError))))) xs [])
         (\<lambda>d. Inr (VDict d)))"
| "convert_from_json ext (TStruct fs) x =
     bind_err
       (mapM (\<lambda>(f, t).
          bind_err (py_get x f) (\<lambda>j.
            bind_err (convert_from_json_na ext t j) (\<lambda>v. Inr (f, v)))) fs)
       (\<lambda>vs. Inr (VStruct vs))"
| "convert_from_json ext (TTuple ts) x =
     bind_err
       (mapM (\<lambda>(t, i).
          bind_err (py_getitem ext x (VInt (int i))) (\<lambda>j. convert_from_json_na ext t j))
          (zip ts [0 ..< length ts]))
       (\<lambda>vs. Inr (VTuple vs))"
| "convert_from_json ext TCall x = call_parse ext x"
| "convert_from_json ext (TLocus rg) x =
     bind_err (py_getitem ext x (VStr ''contig'')) (\<lambda>c.
       bind_err (py_getitem ext x (VStr ''position'')) (\<lambda>p. locus_new ext c p rg))"
| "convert_from_json ext (TInterval p) x =
     bind_err (py_getitem ext x (VStr ''start'')) (\<lambda>js.
       bind_err (convert_from_json_na ext p js) (\<lambda>a.
         bind_err (py_getitem ext x (VStr ''end'')) (\<lambda>je.
           bind_err (convert_from_json_na ext p je) (\<lambda>b.
             bind_err (py_getitem ext x (VStr ''includeStart'')) (\<lambda>is.
               bind_err (py_getitem ext x (VStr ''includeEnd'')) (\<lambda>ie.
                 interval_new ext a b is ie))))))"
| "convert_from_json ext TVoid x = Inr x"
| "convert_from_json ext TInt32 x = Inr x"
| "convert_from_json ext TInt64 x = Inr x"
| "convert_from_json ext TStr x = Inr x"
| "convert_from_json ext TBool x = Inr x"
| "convert_from_json ext (TUnion cs) x = Inr x"
| "convert_from_json ext (TVariable name c b) x = Inr x"
  by pat_completeness auto
termination
  by (relation "measure (\<lambda>p. case p of Inl (ext, t, x) \<Rightarrow> 2 * size t
                                     | Inr (ext, t, x) \<Rightarrow> 2 * size t + 1)")
     (auto dest: size_field size_elem size_zip)

section \<open>The value check\<close>

text \<open>
  \<^verbatim>\<open>_typecheck_one_level\<close> of every class; \<open>Inr ()\<close> is a return without an exception.
  \<^verbatim>\<open>isinstance(x, int)\<close> holds of a \<^verbatim>\<open>bool\<close> too; a \<^verbatim>\<open>Sequence\<close> is a list, a tuple or a
  string; a \<^verbatim>\<open>Mapping\<close> is a \<^verbatim>\<open>dict\<close> or a \<^verbatim>\<open>Struct\<close>. \<^verbatim>\<open>_tstr\<close>, \<^verbatim>\<open>tstruct\<close> and \<^verbatim>\<open>ttuple\<close>
  guard their test with \<^verbatim>\<open>if annotation\<close>, the other classes with
  \<^verbatim>\<open>if annotation is not None\<close>. \<^verbatim>\<open>_tvoid\<close>, \<^verbatim>\<open>tunion\<close> and \<^verbatim>\<open>tvariable\<close> inherit the method of
  \<^verbatim>\<open>HailType\<close>, whose body is \<^verbatim>\<open>pass\<close>.
\<close>

definition int_in_range :: "int \<Rightarrow> int \<Rightarrow> pyval \<Rightarrow> error + unit" where
  "int_in_range lo hi x =
     (if x = VNone then Inr ()
      else (case as_int x of
              None \<Rightarrow> Inl TypeError
            | Some n \<Rightarrow> if lo \<le> n \<and> n \<le> hi then Inr () else Inl TypeError))"

definition is_mapping :: "pyval \<Rightarrow> bool" where
  "is_mapping x = (case x of VDict d \<Rightarrow> True | VStruct fs \<Rightarrow> True | _ \<Rightarrow> False)"

fun typecheck_one_level :: "externals \<Rightarrow> hailtype \<Rightarrow> pyval \<Rightarrow> error + unit" where
  "typecheck_one_level ext TInt32 x = int_in_range (- (2 ^ 31)) (2 ^ 31 - 1) x"
| "typecheck_one_level ext TInt64 x = int_in_range (- (2 ^ 63)) (2 ^ 63 - 1) x"
| "typecheck_one_level ext TFloat32 x =
     (case x of VNone \<Rightarrow> Inr () | VFloat w \<Rightarrow> Inr () | VInt n \<Rightarrow> Inr () | VBool b \<Rightarrow> Inr ()
      | _ \<Rightarrow> Inl TypeError)"
| "typecheck_one_level ext TFloat64 x =
     (case x of VNone \<Rightarrow> Inr () | VFloat w \<Rightarrow> Inr () | VInt n \<Rightarrow> Inr () | VBool b \<Rightarrow> Inr ()
      | _ \<Rightarrow> Inl TypeError)"
| "typecheck_one_level ext TStr x =
     bind_err (py_bool ext x) (\<lambda>b.
       if b \<and> (case x of VStr s \<Rightarrow> False | _ \<Rightarrow> True) then Inl TypeError else Inr ())"
| "typecheck_one_level ext TBool x =
     (case x of VNone \<Rightarrow> Inr () | VBool b \<Rightarrow> Inr () | _ \<Rightarrow> Inl TypeError)"
| "typecheck_one_level ext (TNDArray e n) x =
     (case x of VNone \<Rightarrow> Inr () | VNDArray shape strides data \<Rightarrow> Inr () | _ \<Rightarrow> Inl TypeError)"
| "typecheck_one_level ext (TArray e) x =
     (case x of VNone \<Rightarrow> Inr () | VList xs \<Rightarrow> Inr () | VTuple xs \<Rightarrow> Inr () | VStr s \<Rightarrow> Inr ()
      | _ \<Rightarrow> Inl TypeError)"
| "typecheck_one_level ext (TSet e) x =
     (case x of VNone \<Rightarrow> Inr () | VSet xs \<Rightarrow> Inr () | _ \<Rightarrow> Inl TypeError)"
| "typecheck_one_level ext (TDict kt vt) x =
     (case x of VNone \<Rightarrow> Inr () | VDict d \<Rightarrow> Inr () | _ \<Rightarrow> Inl TypeError)"
| "typecheck_one_level ext (TStruct fs) x =
     bind_err (py_bool ext x) (\<lambda>b.
       if b then
         (if is_mapping x then
            bind_err (py_iter ext x) (\<lambda>keys.
              if list_all (\<lambda>k. k \<in> VStr ` set (map fst fs)) keys then Inr () else Inl TypeError)
          else Inl TypeError)
       else Inr ())"
| "typecheck_one_level ext (TTuple ts) x =
     bind_err (py_bool ext x) (\<lambda>b.
       if b then
         (case x of
            VTuple xs \<Rightarrow> if length xs \<noteq> length ts then Inl TypeError else Inr ()
          | _ \<Rightarrow> Inl TypeError)
       else Inr ())"
| "typecheck_one_level ext TCall x =
     (case x of VNone \<Rightarrow> Inr () | VCall alleles phased \<Rightarrow> Inr () | _ \<Rightarrow> Inl TypeError)"
| "typecheck_one_level ext (TLocus rg) x =
     (case x of
        VNone \<Rightarrow> Inr ()
      | VLocus c p rg' \<Rightarrow> if rg = rg' then Inr () else Inl TypeError
      | _ \<Rightarrow> Inl TypeError)"
| "typecheck_one_level ext (TInterval p) x =
     (case x of
        VNone \<Rightarrow> Inr ()
      | VInterval a b is ie pt \<Rightarrow> if truthy (hail_eq pt p) then Inr () else Inl TypeError
      | _ \<Rightarrow> Inl TypeError)"
| "typecheck_one_level ext TVoid x = Inr ()"
| "typecheck_one_level ext (TUnion cs) x = Inr ()"
| "typecheck_one_level ext (TVariable name c b) x = Inr ()"

text \<open>
  \<^verbatim>\<open>tstruct.__getitem__\<close>, as \<^verbatim>\<open>_traverse\<close> calls it on a key of the value: a string is
  looked up among the field names (\<^verbatim>\<open>KeyError\<close>), an integer indexes the fields
  (\<^verbatim>\<open>IndexError\<close>), any other key fails the decorator's check (\<^verbatim>\<open>TypeError\<close>).
\<close>

definition struct_getitem :: "(string \<times> hailtype) list \<Rightarrow> pyval \<Rightarrow> error + hailtype" where
  "struct_getitem fs k =
     (case k of
        VStr f \<Rightarrow> (case map_of fs f of Some t \<Rightarrow> Inr t | None \<Rightarrow> Inl KeyError)
      | _ \<Rightarrow>
        (case as_index k of
           Some i \<Rightarrow> py_index (map snd fs) i
         | None \<Rightarrow> Inl TypeError))"

lemma struct_getitem_size:
  "struct_getitem fs k = Inr t \<Longrightarrow> size t < Suc (size_list (size_prod (\<lambda>_. 0) size) fs)"
proof -
  assume a: "struct_getitem fs k = Inr t"
  have "t \<in> snd ` set fs"
  proof (cases k)
    case (VStr f)
    with a have "map_of fs f = Some t"
      by (auto simp: struct_getitem_def split: option.splits)
    then have "(f, t) \<in> set fs" by (rule map_of_SomeD)
    then show ?thesis by force
  next
    case (VInt i)
    with a have "py_index (map snd fs) i = Inr t"
      by (simp add: struct_getitem_def as_index_def)
    then have "t \<in> set (map snd fs)"
      by (auto simp: py_index_def split: if_splits)
    then show ?thesis by simp
  next
    case (VBool b)
    with a have "py_index (map snd fs) (if b then 1 else 0) = Inr t"
      by (simp add: struct_getitem_def as_index_def)
    then have "t \<in> set (map snd fs)"
      by (auto simp: py_index_def split: if_splits)
    then show ?thesis by simp
  qed (use a in \<open>auto simp: struct_getitem_def as_index_def\<close>)
  then obtain f where "(f, t) \<in> set fs" by auto
  then show ?thesis by (rule size_field)
qed

text \<open>
  \<^verbatim>\<open>_traverse(obj, f)\<close> of every class: \<^verbatim>\<open>f(self, obj)\<close>, and where it returns \<^verbatim>\<open>True\<close> the
  children. The classes without children call \<^verbatim>\<open>f\<close> and drop what it returns.
\<close>

function (sequential) traverse ::
    "externals \<Rightarrow> (hailtype \<Rightarrow> pyval \<Rightarrow> error + bool) \<Rightarrow> hailtype \<Rightarrow> pyval \<Rightarrow> error + unit"
where
  "traverse ext f (TNDArray e n) obj =
     bind_err (f (TNDArray e n) obj) (\<lambda>go.
       if go then
         bind_err (np_nditer ext obj) (\<lambda>elts.
           bind_err (mapM (\<lambda>elt. traverse ext f e elt) elts) (\<lambda>_. Inr ()))
       else Inr ())"
| "traverse ext f (TArray e) obj =
     bind_err (f (TArray e) obj) (\<lambda>go.
       if go then
         bind_err (py_iter ext obj) (\<lambda>elts.
           bind_err (mapM (\<lambda>elt. traverse ext f e elt) elts) (\<lambda>_. Inr ()))
       else Inr ())"
| "traverse ext f (TSet e) obj =
     bind_err (f (TSet e) obj) (\<lambda>go.
       if go then
         bind_err (py_iter ext obj) (\<lambda>elts.
           bind_err (mapM (\<lambda>elt. traverse ext f e elt) elts) (\<lambda>_. Inr ()))
       else Inr ())"
| "traverse ext f (TDict kt vt) obj =
     bind_err (f (TDict kt vt) obj) (\<lambda>go.
       if go then
         bind_err (py_items obj) (\<lambda>items.
           bind_err
             (mapM (\<lambda>(k, v).
                bind_err (traverse ext f kt k) (\<lambda>_. traverse ext f vt v)) items)
             (\<lambda>_. Inr ()))
       else Inr ())"
| "traverse ext f (TStruct fs) obj =
     bind_err (f (TStruct fs) obj) (\<lambda>go.
       if go then
         bind_err (py_items obj) (\<lambda>items.
           bind_err
             (mapM (\<lambda>(k, v).
                bind_err (struct_getitem fs k) (\<lambda>t. traverse ext f t v)) items)
             (\<lambda>_. Inr ()))
       else Inr ())"
| "traverse ext f (TTuple ts) obj =
     bind_err (f (TTuple ts) obj) (\<lambda>go.
       if go then
         bind_err (py_iter ext obj) (\<lambda>elts.
           bind_err (mapM (\<lambda>(t, elt). traverse ext f t elt) (zip ts elts)) (\<lambda>_. Inr ()))
       else Inr ())"
| "traverse ext f (TInterval p) obj =
     bind_err (f (TInterval p) obj) (\<lambda>go.
       if go then
         (case obj of
            VInterval a b is ie pt \<Rightarrow>
              bind_err (traverse ext f p a) (\<lambda>_. traverse ext f p b)
          | _ \<Rightarrow> Inl AttributeError)
       else Inr ())"
| "traverse ext f t obj = bind_err (f t obj) (\<lambda>_. Inr ())"
  by pat_completeness auto
termination
  by (relation "measure (\<lambda>(ext, f, t, obj). size t)")
     (auto dest: size_field size_elem size_zip struct_getitem_size)

text \<open>\<^verbatim>\<open>HailType.typecheck\<close>: the traversal with \<^verbatim>\<open>check\<close>, which always returns \<^verbatim>\<open>True\<close>.\<close>

definition check :: "externals \<Rightarrow> hailtype \<Rightarrow> pyval \<Rightarrow> error + bool" where
  "check ext t obj = bind_err (typecheck_one_level ext t obj) (\<lambda>_. Inr True)"

definition typecheck :: "externals \<Rightarrow> hailtype \<Rightarrow> pyval \<Rightarrow> error + unit" where
  "typecheck ext t v = traverse ext (check ext) t v"

section \<open>The printer and the grammar\<close>

subsection \<open>The display form\<close>

definition backtick :: char where "backtick = CHR 0x60"
definition backslash :: char where "backslash = CHR 0x5C"

text \<open>
  Modelled from the spec: \<^verbatim>\<open>escape_parsable\<close> is imported from \<^verbatim>\<open>hail.utils.java\<close>, which
  is not among the sources. "Identifiers containing reserved characters (comma, colon,
  angle/curly/round brackets, backtick, backslash, whitespace) MUST be escaped with
  backticks and backslash-escaping of embedded backticks/backslashes on output".
\<close>

definition reserved :: "char \<Rightarrow> bool" where
  "reserved c =
     (c \<in> {CHR '','', CHR '':'', CHR ''<'', CHR ''>'', CHR ''{'', CHR ''}'', CHR ''('', CHR '')'',
            backtick, backslash} \<or> is_space c)"

definition escape_parsable :: "string \<Rightarrow> string" where
  "escape_parsable s =
     (if list_ex reserved s
      then [backtick]
           @ concat (map (\<lambda>c. if c = backtick \<or> c = backslash then [backslash, c] else [c]) s)
           @ [backtick]
      else s)"

text \<open>\<^verbatim>\<open>str(n)\<close> of a natural number: its decimal digits.\<close>

fun digits :: "nat \<Rightarrow> nat \<Rightarrow> string" where
  "digits 0 n = []"
| "digits (Suc fuel) n =
     (if n < 10 then [char_of (48 + n)]
      else digits fuel (n div 10) @ [char_of (48 + n mod 10)])"

definition str_nat :: "nat \<Rightarrow> string" where
  "str_nat n = digits (Suc n) n"

text \<open>The keys of \<^verbatim>\<open>_cond_map\<close> as \<^verbatim>\<open>tvariable.__str__\<close> prints them.\<close>

fun cond_name :: "cond \<Rightarrow> string" where
  "cond_name Numeric = ''numeric''"
| "cond_name CInt32 = ''int32''"
| "cond_name CInt64 = ''int64''"
| "cond_name CFloat32 = ''float32''"
| "cond_name CFloat64 = ''float64''"
| "cond_name CLocus = ''locus''"
| "cond_name CStruct = ''struct''"
| "cond_name CUnion = ''union''"
| "cond_name CTuple = ''tuple''"

text \<open>\<^verbatim>\<open>', '.join(parts)\<close>.\<close>

fun join :: "string \<Rightarrow> string list \<Rightarrow> string" where
  "join sep [] = []"
| "join sep [x] = x"
| "join sep (x # y # ys) = x @ sep @ join sep (y # ys)"

text \<open>
  \<^verbatim>\<open>__str__\<close> of every class. \<^verbatim>\<open>tndarray.__str__\<close> reads the property \<^verbatim>\<open>ndim\<close>, which
  asserts that the rank is a \<^verbatim>\<open>NatLiteral\<close>, before it formats the element type.
  \<^verbatim>\<open>tlocus.__str__\<close> writes the name of the reference genome between \<^verbatim>\<open><\<close> and \<^verbatim>\<open>>\<close>.
\<close>

fun str_of :: "hailtype \<Rightarrow> error + string" where
  "str_of TVoid = Inr ''void''"
| "str_of TInt32 = Inr ''int32''"
| "str_of TInt64 = Inr ''int64''"
| "str_of TFloat32 = Inr ''float32''"
| "str_of TFloat64 = Inr ''float64''"
| "str_of TStr = Inr ''str''"
| "str_of TBool = Inr ''bool''"
| "str_of (TNDArray e n) =
     (case n of
        NatVariable v \<Rightarrow> Inl AssertionError
      | NatLiteral k \<Rightarrow>
          bind_err (str_of e) (\<lambda>se. Inr (''ndarray<'' @ se @ '', '' @ str_nat k @ ''>'')))"
| "str_of (TArray e) = bind_err (str_of e) (\<lambda>se. Inr (''array<'' @ se @ ''>''))"
| "str_of (TSet e) = bind_err (str_of e) (\<lambda>se. Inr (''set<'' @ se @ ''>''))"
| "str_of (TDict k v) =
     bind_err (str_of k) (\<lambda>sk.
       bind_err (str_of v) (\<lambda>sv. Inr (''dict<'' @ sk @ '', '' @ sv @ ''>'')))"
| "str_of (TStruct fs) =
     bind_err
       (mapM (\<lambda>(f, t). bind_err (str_of t) (\<lambda>st. Inr (escape_parsable f @ '': '' @ st))) fs)
       (\<lambda>parts. Inr (''struct{'' @ join '', '' parts @ ''}''))"
| "str_of (TUnion fs) =
     bind_err
       (mapM (\<lambda>(f, t). bind_err (str_of t) (\<lambda>st. Inr (escape_parsable f @ '': '' @ st))) fs)
       (\<lambda>parts. Inr (''union{'' @ join '', '' parts @ ''}''))"
| "str_of (TTuple ts) =
     bind_err (mapM (\<lambda>t. str_of t) ts) (\<lambda>parts. Inr (''tuple('' @ join '', '' parts @ '')''))"
| "str_of TCall = Inr ''call''"
| "str_of (TLocus rg) = Inr (''locus<'' @ escape_parsable rg @ ''>'')"
| "str_of (TInterval p) = bind_err (str_of p) (\<lambda>sp. Inr (''interval<'' @ sp @ ''>''))"
| "str_of (TVariable name c b) =
     Inr (''?'' @ name @ (case c of None \<Rightarrow> [] | Some cd \<Rightarrow> '':'' @ cond_name cd))"

subsection \<open>The grammar of \<^verbatim>\<open>dtype\<close>\<close>

text \<open>
  Modelled from the spec: \<^verbatim>\<open>dtype\<close> calls \<^verbatim>\<open>type_grammar.parse\<close> and
  \<^verbatim>\<open>type_node_visitor.visit\<close> of \<^verbatim>\<open>hail.expr.type_parsing\<close>, which is not among the sources.
  The grammar is the one of the spec (section 4.1), a parsing expression grammar: a
  choice takes its first alternative that matches, a repetition takes as many items as
  match, and the whole text must be consumed. The docstring of \<^verbatim>\<open>dtype\<close> gives the same
  productions with the \<^verbatim>\<open>t\<close>-prefixed aliases, among them
  \<^verbatim>\<open>locus = ("tlocus" / "locus") _ "[" identifier "]"\<close>. The visitor builds the type of each
  production; a rank written in digits is a \<^verbatim>\<open>NatLiteral\<close>.

  The result of a parser at a position: the value and the rest of the text, no match,
  or not enough fuel (\<open>parse_type\<close> recurses on a fuel that bounds the nesting depth).
\<close>

datatype 'a pres = Matched 'a string | Failed | NoFuel

definition ws :: "string \<Rightarrow> string" where
  "ws s = dropWhile is_space s"

fun strip_prefix :: "string \<Rightarrow> string \<Rightarrow> string option" where
  "strip_prefix [] s = Some s"
| "strip_prefix (k # ks) [] = None"
| "strip_prefix (k # ks) (c # cs) = (if k = c then strip_prefix ks cs else None)"

text \<open>The first of the spellings of a keyword that the text starts with.\<close>

fun keyword :: "string list \<Rightarrow> string \<Rightarrow> string option" where
  "keyword [] s = None"
| "keyword (k # ks) s = (case strip_prefix k s of Some r \<Rightarrow> Some r | None \<Rightarrow> keyword ks s)"

definition sym :: "char \<Rightarrow> string \<Rightarrow> string option" where
  "sym c s = (case s of [] \<Rightarrow> None | x # r \<Rightarrow> if x = c then Some r else None)"

text \<open>
  \<^verbatim>\<open>\w\<close> on code points below 256: the ASCII letters and digits, the underscore, and the
  letters and numbers of Latin-1.
\<close>

definition word_char :: "char \<Rightarrow> bool" where
  "word_char c =
     (let n = (of_char c :: nat)
      in (48 \<le> n \<and> n \<le> 57) \<or> (65 \<le> n \<and> n \<le> 90) \<or> n = 95 \<or> (97 \<le> n \<and> n \<le> 122)
         \<or> n \<in> {170, 178, 179, 181, 185, 186, 188, 189, 190}
         \<or> (192 \<le> n \<and> n \<le> 214) \<or> (216 \<le> n \<and> n \<le> 246) \<or> (248 \<le> n \<and> n \<le> 255))"

definition simple_identifier :: "string \<Rightarrow> (string \<times> string) option" where
  "simple_identifier s =
     (if takeWhile word_char s = [] then None
      else Some (takeWhile word_char s, dropWhile word_char s))"

text \<open>
  After the opening backtick: characters other than backtick and backslash, or a
  backslash and any character but a newline, up to the closing backtick. The
  identifier is the text between the backticks without the escaping backslashes.
\<close>

fun escaped_rest :: "string \<Rightarrow> (string \<times> string) option" where
  "escaped_rest [] = None"
| "escaped_rest [c] = (if c = backtick then Some ([], []) else None)"
| "escaped_rest (c # d # ds) =
     (if c = backtick then Some ([], d # ds)
      else if c = backslash then
        (if d = CHR 0x0A then None
         else (case escaped_rest ds of None \<Rightarrow> None | Some (w, r) \<Rightarrow> Some (d # w, r)))
      else (case escaped_rest (d # ds) of None \<Rightarrow> None | Some (w, r) \<Rightarrow> Some (c # w, r)))"

definition escaped_identifier :: "string \<Rightarrow> (string \<times> string) option" where
  "escaped_identifier s =
     (case s of [] \<Rightarrow> None | c # r \<Rightarrow> if c = backtick then escaped_rest r else None)"

definition parse_identifier :: "string \<Rightarrow> (string \<times> string) option" where
  "parse_identifier s =
     (case simple_identifier (ws s) of
        Some (w, r) \<Rightarrow> Some (w, ws r)
      | None \<Rightarrow>
          (case escaped_identifier (ws s) of
             Some (w, r) \<Rightarrow> Some (w, ws r)
           | None \<Rightarrow> None))"

text \<open>The ordered choice, and the repetition \<^verbatim>\<open>("," item)*\<close> of at most \<open>k\<close> items.\<close>

definition orelse :: "'a pres \<Rightarrow> 'a pres \<Rightarrow> 'a pres" where
  "orelse a b = (case a of Failed \<Rightarrow> b | _ \<Rightarrow> a)"

fun more :: "nat \<Rightarrow> (string \<Rightarrow> 'a pres) \<Rightarrow> string \<Rightarrow> 'a list pres" where
  "more 0 p s = NoFuel"
| "more (Suc k) p s =
     (case sym CHR '','' s of
        None \<Rightarrow> Matched [] s
      | Some r \<Rightarrow>
          (case p r of
             Failed \<Rightarrow> Matched [] s
           | NoFuel \<Rightarrow> NoFuel
           | Matched x r' \<Rightarrow>
               (case more k p r' of
                  Matched xs r'' \<Rightarrow> Matched (x # xs) r''
                | Failed \<Rightarrow> Failed
                | NoFuel \<Rightarrow> NoFuel)))"

text \<open>\<^verbatim>\<open>item ("," item)*\<close>, and \<^verbatim>\<open>(item ("," item)* | _)\<close> before a closing bracket.\<close>

definition list1 :: "nat \<Rightarrow> (string \<Rightarrow> 'a pres) \<Rightarrow> string \<Rightarrow> 'a list pres" where
  "list1 k p s =
     (case p s of
        Failed \<Rightarrow> Failed
      | NoFuel \<Rightarrow> NoFuel
      | Matched x r \<Rightarrow>
          (case more k p r of
             Matched xs r' \<Rightarrow> Matched (x # xs) r'
           | Failed \<Rightarrow> Failed
           | NoFuel \<Rightarrow> NoFuel))"

definition list0 :: "nat \<Rightarrow> (string \<Rightarrow> 'a pres) \<Rightarrow> string \<Rightarrow> 'a list pres" where
  "list0 k p s = orelse (list1 k p s) (Matched [] (ws s))"

text \<open>A keyword, whitespace, an opening bracket, a body and a closing bracket.\<close>

definition bracketed ::
    "string list \<Rightarrow> char \<Rightarrow> (string \<Rightarrow> 'a pres) \<Rightarrow> char \<Rightarrow> ('a \<Rightarrow> hailtype) \<Rightarrow> string \<Rightarrow> hailtype pres"
where
  "bracketed kws opn body cls mk s =
     (case keyword kws s of
        None \<Rightarrow> Failed
      | Some r \<Rightarrow>
          (case sym opn (ws r) of
             None \<Rightarrow> Failed
           | Some r1 \<Rightarrow>
               (case body r1 of
                  Failed \<Rightarrow> Failed
                | NoFuel \<Rightarrow> NoFuel
                | Matched x r2 \<Rightarrow>
                    (case sym cls r2 of None \<Rightarrow> Failed | Some r3 \<Rightarrow> Matched (mk x) r3))))"

definition atom :: "string list \<Rightarrow> hailtype \<Rightarrow> string \<Rightarrow> hailtype pres" where
  "atom kws t s = (case keyword kws s of None \<Rightarrow> Failed | Some r \<Rightarrow> Matched t r)"

text \<open>Two bodies in a row with a comma between, and an identifier as a body.\<close>

definition pair_of ::
    "(string \<Rightarrow> 'a pres) \<Rightarrow> (string \<Rightarrow> 'b pres) \<Rightarrow> string \<Rightarrow> ('a \<times> 'b) pres" where
  "pair_of p q s =
     (case p s of
        Failed \<Rightarrow> Failed
      | NoFuel \<Rightarrow> NoFuel
      | Matched x r \<Rightarrow>
          (case sym CHR '','' r of
             None \<Rightarrow> Failed
           | Some r1 \<Rightarrow>
               (case q r1 of
                  Failed \<Rightarrow> Failed
                | NoFuel \<Rightarrow> NoFuel
                | Matched y r2 \<Rightarrow> Matched (x, y) r2)))"

definition ident :: "string \<Rightarrow> string pres" where
  "ident s = (case parse_identifier s of None \<Rightarrow> Failed | Some (w, r) \<Rightarrow> Matched w r)"

text \<open>\<^verbatim>\<open>field := identifier ":" type\<close>.\<close>

definition field :: "(string \<Rightarrow> hailtype pres) \<Rightarrow> string \<Rightarrow> (string \<times> hailtype) pres" where
  "field p s =
     (case parse_identifier s of
        None \<Rightarrow> Failed
      | Some (f, r) \<Rightarrow>
          (case sym CHR '':'' r of
             None \<Rightarrow> Failed
           | Some r1 \<Rightarrow>
               (case p r1 of
                  Failed \<Rightarrow> Failed
                | NoFuel \<Rightarrow> NoFuel
                | Matched t r2 \<Rightarrow> Matched (f, t) r2)))"

text \<open>
  What the visitor builds: \<^verbatim>\<open>tstruct(**dict(fields))\<close>, in which a repeated name keeps its
  first position and its last type; the rank of an ndarray from its identifier.
\<close>

fun field_set :: "(string \<times> hailtype) list \<Rightarrow> string \<Rightarrow> hailtype \<Rightarrow> (string \<times> hailtype) list" where
  "field_set [] f t = [(f, t)]"
| "field_set ((g, u) # fs) f t = (if g = f then (g, t) # fs else (g, u) # field_set fs f t)"

definition dict_of_fields :: "(string \<times> hailtype) list \<Rightarrow> (string \<times> hailtype) list" where
  "dict_of_fields fs = foldl (\<lambda>d (f, t). field_set d f t) [] fs"

definition is_digit :: "char \<Rightarrow> bool" where
  "is_digit c = (48 \<le> (of_char c :: nat) \<and> (of_char c :: nat) \<le> 57)"

definition nat_of_digits :: "string \<Rightarrow> nat" where
  "nat_of_digits s = foldl (\<lambda>n c. 10 * n + (of_char c - 48)) 0 s"

definition rank_of :: "string \<Rightarrow> nat_base" where
  "rank_of w = (if list_all is_digit w then NatLiteral (nat_of_digits w) else NatVariable w)"

text \<open>
  \<^verbatim>\<open>type := _ ( array | set | dict | ndarray | struct | union | tuple | interval | locus |
  int64 | int32 | float32 | float64 | bool | str | call ) _\<close>.
\<close>

fun parse_type :: "nat \<Rightarrow> string \<Rightarrow> hailtype pres" where
  "parse_type 0 s = NoFuel"
| "parse_type (Suc n) s =
     (case
        orelse (bracketed [''tarray'', ''array''] CHR ''<'' (\<lambda>r. parse_type n r) CHR ''>'' TArray (ws s))
       (orelse (bracketed [''tset'', ''set''] CHR ''<'' (\<lambda>r. parse_type n r) CHR ''>'' TSet (ws s))
       (orelse (bracketed [''tdict'', ''dict''] CHR ''<''
                  (pair_of (\<lambda>r. parse_type n r) (\<lambda>r. parse_type n r)) CHR ''>''
                  (\<lambda>(k, v). TDict k v) (ws s))
       (orelse (bracketed [''tndarray'', ''ndarray''] CHR ''<''
                  (pair_of (\<lambda>r. parse_type n r) ident) CHR ''>''
                  (\<lambda>(e, w). TNDArray e (rank_of w)) (ws s))
       (orelse (bracketed [''tstruct'', ''struct''] CHR ''{''
                  (list0 (length s) (field (\<lambda>r. parse_type n r))) CHR ''}''
                  (\<lambda>fs. TStruct (dict_of_fields fs)) (ws s))
       (orelse (bracketed [''tunion'', ''union''] CHR ''{''
                  (list0 (length s) (field (\<lambda>r. parse_type n r))) CHR ''}''
                  (\<lambda>fs. TUnion (dict_of_fields fs)) (ws s))
       (orelse (bracketed [''ttuple'', ''tuple''] CHR ''(''
                  (list0 (length s) (\<lambda>r. parse_type n r)) CHR '')'' TTuple (ws s))
       (orelse (bracketed [''tinterval'', ''interval''] CHR ''<'' (\<lambda>r. parse_type n r) CHR ''>''
                  TInterval (ws s))
       (orelse (bracketed [''tlocus'', ''locus''] CHR ''['' ident CHR '']'' TLocus (ws s))
       (orelse (atom [''int64'', ''tint64''] TInt64 (ws s))
       (orelse (atom [''int32'', ''tint32'', ''int'', ''tint''] TInt32 (ws s))
       (orelse (atom [''float32'', ''tfloat32''] TFloat32 (ws s))
       (orelse (atom [''float64'', ''tfloat64'', ''tfloat'', ''float''] TFloat64 (ws s))
       (orelse (atom [''tbool'', ''bool''] TBool (ws s))
       (orelse (atom [''tstr'', ''str''] TStr (ws s))
               (atom [''tcall'', ''call''] TCall (ws s))))))))))))))))
      of
        Matched t r \<Rightarrow> Matched t (ws r)
      | Failed \<Rightarrow> Failed
      | NoFuel \<Rightarrow> NoFuel)"

text \<open>
  \<^verbatim>\<open>dtype\<close>: the type when the whole text is one \<^verbatim>\<open>type\<close>, \<^verbatim>\<open>ParseError\<close> otherwise; the
  nesting of a text is less than its length, which is the fuel (\<open>None\<close>: the fuel ran
  out).
\<close>

definition dtype :: "string \<Rightarrow> (error + hailtype) option" where
  "dtype s =
     (case parse_type (Suc (length s)) s of
        Matched t [] \<Rightarrow> Some (Inr t)
      | Matched t (c # r) \<Rightarrow> Some (Inl ParseError)
      | Failed \<Rightarrow> Some (Inl ParseError)
      | NoFuel \<Rightarrow> None)"

section \<open>Instances used in examples\<close>

text \<open>
  \<open>unbound_x\<close>: the registry holds one box, named \<^verbatim>\<open>x\<close>, without a value; the state
  after \<^verbatim>\<open>tvariable('x', cond)\<close> from the empty registry. \<open>bound_x v\<close>: that box holds \<open>v\<close>;
  the state after \<^verbatim>\<open>tvariable('x', None).unify(v)\<close>.
\<close>

definition unbound_x :: state where
  "unbound_x = \<lparr>named_boxes = [''x'' \<mapsto> 0], heap = (\<lambda>_. None), next_box = 1\<rparr>"

definition bound_x :: "hailtype \<Rightarrow> state" where
  "bound_x v = \<lparr>named_boxes = [''x'' \<mapsto> 0], heap = (\<lambda>_. None)(0 := Some v), next_box = 1\<rparr>"

text \<open>
  \<open>no_externals\<close>: an instance of the parameters in which every operation outside the
  sources raises (and \<^verbatim>\<open>str\<close> returns the empty string).
\<close>

definition no_externals :: externals where
  "no_externals =
     \<lparr>float_of_int = (\<lambda>n. None),
      float_of_literal = (\<lambda>s. None),
      py_str = (\<lambda>x. []),
      call_parse = (\<lambda>x. Inl ValueError),
      locus_new = (\<lambda>c p rg. Inl ValueError),
      interval_new = (\<lambda>a b c d. Inl ValueError),
      np_bool = (\<lambda>x. Inl ValueError),
      np_iter = (\<lambda>x. Inl ValueError),
      np_getitem = (\<lambda>x k. Inl ValueError),
      np_nditer = (\<lambda>x. Inl ValueError),
      np_array = (\<lambda>t d. Inl ValueError),
      np_ndarray = (\<lambda>t a b c. Inl ValueError)\<rparr>"

section \<open>Equality of types\<close>

text \<open>
  With distinct names in \<open>gs\<close>, looking each name of \<open>fs\<close> up in \<open>gs\<close> is the same as
  going through the two lists side by side, once their name sequences agree.
\<close>

lemma fields_lookup_pointwise:
  assumes "map fst fs = map fst gs" and "distinct (map fst gs)"
  shows "(\<forall>(f, t) \<in> set fs. case map_of gs f of Some u \<Rightarrow> P t u | None \<Rightarrow> False)
         \<longleftrightarrow> list_all2 P (map snd fs) (map snd gs)"
proof -
  have len: "length fs = length gs"
    using assms(1) by (metis length_map)
  from len assms show ?thesis
  proof (induction fs gs rule: list_induct2)
    case Nil
    then show ?case by simp
  next
    case (Cons x xs y ys)
    obtain f t where x: "x = (f, t)" by (cases x)
    obtain g u where y: "y = (g, u)" by (cases y)
    from Cons.prems x y have fg: "f = g" and names: "map fst xs = map fst ys"
      and fresh: "g \<notin> fst ` set ys" and dist: "distinct (map fst ys)"
      by auto
    have rest: "(\<forall>(f', t') \<in> set xs. case map_of (y # ys) f' of Some u' \<Rightarrow> P t' u' | None \<Rightarrow> False)
        \<longleftrightarrow> (\<forall>(f', t') \<in> set xs. case map_of ys f' of Some u' \<Rightarrow> P t' u' | None \<Rightarrow> False)"
    proof -
      have "f' \<noteq> g" if "(f', t') \<in> set xs" for f' t'
      proof -
        from that have "f' \<in> set (map fst xs)" by force
        with names have "f' \<in> fst ` set ys" by simp
        with fresh show ?thesis by auto
      qed
      then show ?thesis using y by (auto split: option.splits)
    qed
    have "(\<forall>(f', t') \<in> set (x # xs). case map_of (y # ys) f' of Some u' \<Rightarrow> P t' u' | None \<Rightarrow> False)
        \<longleftrightarrow> P t u \<and> (\<forall>(f', t') \<in> set xs. case map_of (y # ys) f' of Some u' \<Rightarrow> P t' u' | None \<Rightarrow> False)"
      using x y fg by simp
    also have "\<dots> \<longleftrightarrow> P t u \<and> list_all2 P (map snd xs) (map snd ys)"
      using rest Cons.IH [OF names dist] by simp
    finally show ?case using x y by simp
  qed
qed

text \<open>
  C5. Equality of struct types, and of union types, is sensitive to the order of the
  fields: for two structs (two unions) with distinct field names, \<^verbatim>\<open>==\<close> returns \<^verbatim>\<open>True\<close>
  exactly when the two sequences of names are the same sequence and the field types are
  equal (\<^verbatim>\<open>==\<close> returns \<^verbatim>\<open>True\<close>) position by position, and \<^verbatim>\<open>False\<close> otherwise. In
  particular \<^verbatim>\<open>struct{a: int32, b: str}\<close> and \<^verbatim>\<open>struct{b: str, a: int32}\<close> are not equal,
  although they have the same fields with the same types.
\<close>

theorem struct_union_eq_order_sensitive:
  assumes "distinct (map fst fs)" and "distinct (map fst gs)"
  shows "hail_eq (TStruct fs) (TStruct gs) =
           Some (map fst fs = map fst gs \<and>
                 list_all2 (\<lambda>t u. hail_eq t u = Some True) (map snd fs) (map snd gs))
       \<and> hail_eq (TUnion fs) (TUnion gs) =
           Some (map fst fs = map fst gs \<and>
                 list_all2 (\<lambda>t u. hail_eq t u = Some True) (map snd fs) (map snd gs))
       \<and> hail_eq (TStruct [(''a'', TInt32), (''b'', TStr)])
                  (TStruct [(''b'', TStr), (''a'', TInt32)]) = Some False
       \<and> hail_eq (TUnion [(''a'', TInt32), (''b'', TStr)])
                  (TUnion [(''b'', TStr), (''a'', TInt32)]) = Some False"
proof -
  have key: "map fst fs = map fst gs \<Longrightarrow>
      (\<forall>(f, t) \<in> set fs. case map_of gs f of Some u \<Rightarrow> truthy (hail_eq t u) | None \<Rightarrow> False)
      \<longleftrightarrow> list_all2 (\<lambda>t u. hail_eq t u = Some True) (map snd fs) (map snd gs)"
    using fields_lookup_pointwise [of fs gs "\<lambda>t u. truthy (hail_eq t u)"] assms(2)
    by (simp add: truthy_def)
  have s: "hail_eq (TStruct fs) (TStruct gs) =
           Some (map fst fs = map fst gs \<and>
                 list_all2 (\<lambda>t u. hail_eq t u = Some True) (map snd fs) (map snd gs))"
    using key by auto
  have u: "hail_eq (TUnion fs) (TUnion gs) =
           Some (map fst fs = map fst gs \<and>
                 list_all2 (\<lambda>t u. hail_eq t u = Some True) (map snd fs) (map snd gs))"
    using key by auto
  show ?thesis using s u by simp
qed

text \<open>
  The theorem at \<^verbatim>\<open>struct{a: int32, b: str}\<close> against itself and against
  \<^verbatim>\<open>struct{a: int32, b: bool}\<close>.
\<close>

theorem struct_union_eq_order_sensitive_witness:
  "distinct (map fst [(''a'', TInt32), (''b'', TStr)])
   \<and> distinct (map fst [(''a'', TInt32), (''b'', TBool)])
   \<and> hail_eq (TStruct [(''a'', TInt32), (''b'', TStr)])
              (TStruct [(''a'', TInt32), (''b'', TStr)]) = Some True
   \<and> hail_eq (TStruct [(''a'', TInt32), (''b'', TStr)])
              (TStruct [(''a'', TInt32), (''b'', TBool)]) = Some False"
proof -
  have d: "distinct (map fst [(''a'', TInt32), (''b'', TStr)])" by simp
  have d': "distinct (map fst [(''a'', TInt32), (''b'', TBool)])" by simp
  show ?thesis
    using struct_union_eq_order_sensitive [OF d d] struct_union_eq_order_sensitive [OF d d'] d d'
    by simp
qed

text \<open>
  C9. Equality of ndarray types does not look at the rank: \<^verbatim>\<open>==\<close> on two ndarray types
  returns what \<^verbatim>\<open>==\<close> returns on their element types, whatever the two ranks. So
  \<^verbatim>\<open>ndarray<int32, 1> == ndarray<int32, 2>\<close> is \<^verbatim>\<open>True\<close> although the two types differ.
\<close>

theorem ndarray_eq_disregards_rank:
  "hail_eq (TNDArray e n) (TNDArray e' n') = hail_eq e e'
   \<and> hail_eq (TNDArray TInt32 (NatLiteral 1)) (TNDArray TInt32 (NatLiteral 2)) = Some True
   \<and> TNDArray TInt32 (NatLiteral 1) \<noteq> TNDArray TInt32 (NatLiteral 2)"
  by simp

section \<open>Type variables\<close>

lemma tvariable_unify_unbound:
  "heap s b = None \<Longrightarrow>
   unify nu (TVariable n c b) t s =
     (if condf_rejects c t then (Inr (Some False), s)
      else (Inr (Some True), s\<lparr>heap := (heap s)(b := Some t)\<rparr>))"
  by (simp add: box_unify_def)

lemma tvariable_unify_bound:
  "heap s b = Some v \<Longrightarrow>
   unify nu (TVariable n c b) t s =
     (Inr (if condf_rejects c t then Some False else hail_eq v t), s)"
  by (simp add: box_unify_def)

text \<open>A type equal to one that a constraint accepts is accepted by it too.\<close>

lemma hail_eq_accepts:
  assumes "hail_eq v t = Some True" and "truthy (cond_map cd v)"
  shows "truthy (cond_map cd t)"
  using assms
  by (cases cd; cases v; cases t) (auto simp: truthy_def is_numeric_def)

text \<open>
  \<^verbatim>\<open>?x:numeric\<close> from the empty registry: unified with \<^verbatim>\<open>int32\<close>, then with \<^verbatim>\<open>str\<close>, then
  cleared and unified with \<^verbatim>\<open>str\<close> and with \<^verbatim>\<open>int64\<close>.
\<close>

lemma tvariable_scenario:
  "(case tvariable ''x'' (Some Numeric) empty_state of (x, s1) \<Rightarrow>
     case unify nu x TInt32 s1 of (r1, s2) \<Rightarrow>
     case unify nu x TStr s2 of (r2, s3) \<Rightarrow>
     case unify nu x TStr (clear nc x s3) of (r3, s4) \<Rightarrow>
     case unify nu x TInt64 s4 of (r4, s5) \<Rightarrow>
       r1 = Inr (Some True) \<and> heap s2 0 = Some TInt32
       \<and> r2 = Inr (Some False) \<and> s3 = s2
       \<and> r3 = Inr (Some False) \<and> s4 = clear nc x s3 \<and> heap s4 0 = None
       \<and> r4 = Inr (Some True) \<and> heap s5 0 = Some TInt64)"
  by (simp add: tvariable_def from_name_def empty_state_def box_unify_def box_clear_def
      condf_rejects_def truthy_def is_numeric_def)

lemma bound_x_reached:
  "(case tvariable ''x'' None empty_state of (y, s1) \<Rightarrow> unify nu y v s1)
   = (Inr (Some True), bound_x v)"
  by (simp add: tvariable_def from_name_def empty_state_def box_unify_def condf_rejects_def
      bound_x_def)

lemma bound_x_tvariable:
  "tvariable ''x'' c (bound_x v) = (TVariable ''x'' c 0, bound_x v)"
  by (simp add: tvariable_def from_name_def bound_x_def)

text \<open>
  C2, as the code has it. \<^verbatim>\<open>unify\<close> on a type variable whose box has no value returns
  \<^verbatim>\<open>False\<close> and binds nothing when the constraint rejects the candidate, and otherwise
  binds the box to the candidate and returns \<^verbatim>\<open>True\<close>. On a variable whose box holds \<open>v\<close>
  it never changes the binding; it tests the constraint first, also then, and returns
  \<^verbatim>\<open>False\<close> when the constraint rejects the candidate and the result of \<^verbatim>\<open>v == candidate\<close>
  otherwise: \<^verbatim>\<open>True\<close> exactly when the constraint accepts the candidate and the candidate
  equals \<open>v\<close>. When the constraint accepts \<open>v\<close> itself (every value bound through this
  variable), that is exactly when the candidate equals \<open>v\<close>. \<^verbatim>\<open>?x:numeric\<close> unified with
  \<^verbatim>\<open>int32\<close> is bound; unified with \<^verbatim>\<open>str\<close> next it fails; after \<^verbatim>\<open>clear()\<close> it fails against
  \<^verbatim>\<open>str\<close> and succeeds against \<^verbatim>\<open>int64\<close>.
\<close>

theorem tvariable_unify_two_state:
  "(heap s b = None \<longrightarrow>
      unify nu (TVariable n c b) t s =
        (if condf_rejects c t then (Inr (Some False), s)
         else (Inr (Some True), s\<lparr>heap := (heap s)(b := Some t)\<rparr>)))
   \<and> (heap s b = Some v \<longrightarrow>
      unify nu (TVariable n c b) t s =
        (Inr (if condf_rejects c t then Some False else hail_eq v t), s))
   \<and> (heap s b = Some v \<and> \<not> condf_rejects c v \<longrightarrow>
      (fst (unify nu (TVariable n c b) t s) = Inr (Some True)) = (hail_eq v t = Some True))
   \<and> (case tvariable ''x'' (Some Numeric) empty_state of (x, s1) \<Rightarrow>
       case unify nu x TInt32 s1 of (r1, s2) \<Rightarrow>
       case unify nu x TStr s2 of (r2, s3) \<Rightarrow>
       case unify nu x TStr (clear nc x s3) of (r3, s4) \<Rightarrow>
       case unify nu x TInt64 s4 of (r4, s5) \<Rightarrow>
         r1 = Inr (Some True) \<and> heap s2 0 = Some TInt32
         \<and> r2 = Inr (Some False) \<and> s3 = s2
         \<and> r3 = Inr (Some False) \<and> s4 = clear nc x s3 \<and> heap s4 0 = None
         \<and> r4 = Inr (Some True) \<and> heap s5 0 = Some TInt64)"
proof -
  have inv: "(fst (unify nu (TVariable n c b) t s) = Inr (Some True)) = (hail_eq v t = Some True)"
    if b: "heap s b = Some v" and ok: "\<not> condf_rejects c v"
  proof (cases "hail_eq v t = Some True")
    case True
    with ok have "\<not> condf_rejects c t"
      by (auto simp: condf_rejects_def split: option.splits dest: hail_eq_accepts)
    with True show ?thesis unfolding tvariable_unify_bound [OF b] by simp
  next
    case False
    then show ?thesis unfolding tvariable_unify_bound [OF b] by simp
  qed
  show ?thesis
    using tvariable_unify_unbound [of s b nu n c t] tvariable_unify_bound [of s b v nu n c t]
      inv tvariable_scenario [where nu = nu and nc = nc]
    by blast
qed

text \<open>
  The theorem at \<^verbatim>\<open>?x:numeric\<close>: unbound in the empty registry against \<^verbatim>\<open>int32\<close> and
  \<^verbatim>\<open>str\<close>, and bound to \<^verbatim>\<open>int32\<close> against \<^verbatim>\<open>int32\<close> and \<^verbatim>\<open>int64\<close>.
\<close>

theorem tvariable_unify_two_state_witness:
  "heap empty_state 0 = None
   \<and> unify (\<lambda>n m s. (Inr None, s)) (TVariable ''x'' (Some Numeric) 0) TInt32 empty_state
       = (Inr (Some True), empty_state\<lparr>heap := (heap empty_state)(0 := Some TInt32)\<rparr>)
   \<and> unify (\<lambda>n m s. (Inr None, s)) (TVariable ''x'' (Some Numeric) 0) TStr empty_state
       = (Inr (Some False), empty_state)
   \<and> heap (bound_x TInt32) 0 = Some TInt32 \<and> \<not> condf_rejects (Some Numeric) TInt32
   \<and> unify (\<lambda>n m s. (Inr None, s)) (TVariable ''x'' (Some Numeric) 0) TInt32 (bound_x TInt32)
       = (Inr (Some True), bound_x TInt32)
   \<and> unify (\<lambda>n m s. (Inr None, s)) (TVariable ''x'' (Some Numeric) 0) TInt64 (bound_x TInt32)
       = (Inr (Some False), bound_x TInt32)"
proof -
  have u: "heap empty_state 0 = None" by (simp add: empty_state_def)
  have b: "heap (bound_x TInt32) 0 = Some TInt32" by (simp add: bound_x_def)
  have ok: "\<not> condf_rejects (Some Numeric) TInt32"
    by (simp add: condf_rejects_def truthy_def is_numeric_def)
  have no: "condf_rejects (Some Numeric) TStr"
    by (simp add: condf_rejects_def truthy_def is_numeric_def)
  have ok': "\<not> condf_rejects (Some Numeric) TInt64"
    by (simp add: condf_rejects_def truthy_def is_numeric_def)
  note th = tvariable_unify_two_state [where nu = "\<lambda>n m s. (Inr None, s)" and n = "''x''"
      and c = "Some Numeric" and b = 0]
  from th [where s = empty_state and t = TInt32] u ok
  have 1: "unify (\<lambda>n m s. (Inr None, s)) (TVariable ''x'' (Some Numeric) 0) TInt32 empty_state
       = (Inr (Some True), empty_state\<lparr>heap := (heap empty_state)(0 := Some TInt32)\<rparr>)"
    by simp
  from th [where s = empty_state and t = TStr] u no
  have 2: "unify (\<lambda>n m s. (Inr None, s)) (TVariable ''x'' (Some Numeric) 0) TStr empty_state
       = (Inr (Some False), empty_state)"
    by simp
  from th [where s = "bound_x TInt32" and t = TInt32 and v = TInt32] b ok
  have 3: "unify (\<lambda>n m s. (Inr None, s)) (TVariable ''x'' (Some Numeric) 0) TInt32 (bound_x TInt32)
       = (Inr (Some True), bound_x TInt32)"
    by simp
  from th [where s = "bound_x TInt32" and t = TInt64 and v = TInt32] b ok'
  have 4: "unify (\<lambda>n m s. (Inr None, s)) (TVariable ''x'' (Some Numeric) 0) TInt64 (bound_x TInt32)
       = (Inr (Some False), bound_x TInt32)"
    by simp
  from u b ok 1 2 3 4 show ?thesis by blast
qed

text \<open>
  Where the claim as stated fails: the box of \<^verbatim>\<open>x\<close> is bound to \<^verbatim>\<open>str\<close> (through the
  unconstrained variable \<^verbatim>\<open>tvariable('x', None)\<close>, see \<open>bound_x_reached\<close>), the variable
  \<^verbatim>\<open>?x:numeric\<close> of the same name holds that box, the candidate \<^verbatim>\<open>str\<close> equals the bound
  value, and \<^verbatim>\<open>unify\<close> returns \<^verbatim>\<open>False\<close>.
\<close>

theorem tvariable_unify_bound_counterexample:
  "tvariable ''x'' (Some Numeric) (bound_x TStr)
     = (TVariable ''x'' (Some Numeric) 0, bound_x TStr)
   \<and> heap (bound_x TStr) 0 = Some TStr
   \<and> hail_eq TStr TStr = Some True
   \<and> unify (\<lambda>n m s. (Inr None, s)) (TVariable ''x'' (Some Numeric) 0) TStr (bound_x TStr)
       = (Inr (Some False), bound_x TStr)"
  by (simp add: bound_x_tvariable)
     (simp add: bound_x_def condf_rejects_def truthy_def is_numeric_def)

section \<open>One box per name\<close>

lemma unbound_x_reached:
  "tvariable ''x'' c empty_state = (TVariable ''x'' c 0, unbound_x)"
  by (simp add: tvariable_def from_name_def empty_state_def unbound_x_def)

lemma unbound_x_tvariable:
  "tvariable ''x'' c unbound_x = (TVariable ''x'' c 0, unbound_x)"
  by (simp add: tvariable_def from_name_def unbound_x_def)

lemma tvariable_registered:
  "tvariable n c s = (v, s') \<Longrightarrow> \<exists>b. named_boxes s' n = Some b \<and> v = TVariable n c b"
  by (auto simp: tvariable_def from_name_def split: option.splits)

lemma tvariable_again:
  "named_boxes s n = Some b \<Longrightarrow> tvariable n c s = (TVariable n c b, s)"
  by (simp add: tvariable_def from_name_def)

text \<open>Nothing that a type variable does changes the registry of names.\<close>

lemma tvariable_keeps_registered:
  "named_boxes s n = Some b \<Longrightarrow> named_boxes (snd (tvariable m c s)) n = Some b"
  by (auto simp: tvariable_def from_name_def split: option.splits)

lemma tvariable_unify_registry:
  "named_boxes (snd (unify nu (TVariable m c b) t s)) = named_boxes s"
  by (simp add: box_unify_def split: option.splits)

lemma tvariable_clear_registry:
  "named_boxes (clear nc (TVariable m c b) s) = named_boxes s"
  by (simp add: box_clear_def)

text \<open>
  C8, as the code has it. The box \<open>b\<close> of a type variable constructed with the name \<open>n\<close> is
  the one registered under \<open>n\<close>, and it stays registered: constructing a variable of any
  name, \<^verbatim>\<open>unify\<close> on a variable and \<^verbatim>\<open>clear\<close> on a variable leave the entry of \<open>n\<close> as it is.
  So a second variable constructed with the name \<open>n\<close> in any state in which \<open>n\<close> is
  registered with \<open>b\<close>, before the first is bound, while it is bound or after it was
  cleared, holds the same box \<open>b\<close>, and its construction changes nothing. When the box
  has no value and the first variable's constraint accepts \<open>t\<close>, \<^verbatim>\<open>unify\<close> on the first
  against \<open>t\<close> returns \<^verbatim>\<open>True\<close> and binds the box to \<open>t\<close>. In any state in which the box
  holds \<open>t\<close>, \<^verbatim>\<open>unify\<close> on the second against any \<open>t'\<close> leaves the state alone and returns
  \<^verbatim>\<open>False\<close> when the second variable's own constraint rejects \<open>t'\<close> and the result of
  \<^verbatim>\<open>t == t'\<close> otherwise; \<^verbatim>\<open>clear()\<close> on either variable gives the same state, in which the
  box has no value.
\<close>

theorem shared_binding_cell:
  assumes "tvariable n c1 s = (v1, s1)"
  shows "\<exists>b. named_boxes s1 n = Some b \<and> v1 = TVariable n c1 b
     \<and> (\<forall>s' m c. named_boxes s' n = Some b \<longrightarrow>
            named_boxes (snd (tvariable m c s')) n = Some b)
     \<and> (\<forall>s' m c b' t'. named_boxes (snd (unify nu (TVariable m c b') t' s')) = named_boxes s')
     \<and> (\<forall>s' m c b'. named_boxes (clear nc (TVariable m c b') s') = named_boxes s')
     \<and> (\<forall>s'. named_boxes s' n = Some b \<longrightarrow> tvariable n c2 s' = (TVariable n c2 b, s'))
     \<and> (heap s1 b = None \<and> \<not> condf_rejects c1 t \<longrightarrow>
          unify nu v1 t s1 = (Inr (Some True), s1\<lparr>heap := (heap s1)(b := Some t)\<rparr>)
          \<and> tvariable n c2 (s1\<lparr>heap := (heap s1)(b := Some t)\<rparr>)
              = (TVariable n c2 b, s1\<lparr>heap := (heap s1)(b := Some t)\<rparr>))
     \<and> (\<forall>s'. heap s' b = Some t \<longrightarrow>
          (\<forall>t'. unify nu (TVariable n c2 b) t' s' =
                (Inr (if condf_rejects c2 t' then Some False else hail_eq t t'), s'))
          \<and> clear nc v1 s' = s'\<lparr>heap := (heap s')(b := None)\<rparr>
          \<and> clear nc (TVariable n c2 b) s' = s'\<lparr>heap := (heap s')(b := None)\<rparr>
          \<and> heap (clear nc v1 s') b = None)"
proof -
  from assms obtain b where b: "named_boxes s1 n = Some b" and v1: "v1 = TVariable n c1 b"
    using tvariable_registered by blast
  let ?s3 = "s1\<lparr>heap := (heap s1)(b := Some t)\<rparr>"
  have reg3: "named_boxes ?s3 n = Some b" using b by simp
  have 1: "unify nu v1 t s1 = (Inr (Some True), ?s3)"
    if u: "heap s1 b = None" and ok: "\<not> condf_rejects c1 t"
    unfolding v1 tvariable_unify_unbound [OF u] using ok by simp
  have 2: "unify nu (TVariable n c2 b) t' s' =
      (Inr (if condf_rejects c2 t' then Some False else hail_eq t t'), s')"
    if "heap s' b = Some t" for s' t'
    using that by (rule tvariable_unify_bound)
  show ?thesis
  proof (intro exI [of _ b] conjI impI allI)
    show "named_boxes s1 n = Some b" by (fact b)
    show "v1 = TVariable n c1 b" by (fact v1)
    show "named_boxes (snd (tvariable m c s')) n = Some b"
      if "named_boxes s' n = Some b" for s' m c
      using that by (rule tvariable_keeps_registered)
    show "named_boxes (snd (unify nu (TVariable m c b') t' s')) = named_boxes s'" for s' m c b' t'
      by (rule tvariable_unify_registry)
    show "named_boxes (clear nc (TVariable m c b') s') = named_boxes s'" for s' m c b'
      by (rule tvariable_clear_registry)
    show "tvariable n c2 s' = (TVariable n c2 b, s')" if "named_boxes s' n = Some b" for s'
      using that by (rule tvariable_again)
    show "unify nu v1 t s1 = (Inr (Some True), ?s3)"
      if "heap s1 b = None \<and> \<not> condf_rejects c1 t"
      using that 1 by blast
    show "tvariable n c2 ?s3 = (TVariable n c2 b, ?s3)"
      using reg3 by (rule tvariable_again)
    show "unify nu (TVariable n c2 b) t' s' =
      (Inr (if condf_rejects c2 t' then Some False else hail_eq t t'), s')"
      if "heap s' b = Some t" for s' t'
      using that by (rule 2)
    show "clear nc v1 s' = s'\<lparr>heap := (heap s')(b := None)\<rparr>" for s'
      by (simp add: v1 box_clear_def)
    show "clear nc (TVariable n c2 b) s' = s'\<lparr>heap := (heap s')(b := None)\<rparr>" for s'
      by (simp add: box_clear_def)
    show "heap (clear nc v1 s') b = None" for s'
      by (simp add: v1 box_clear_def)
  qed
qed

text \<open>
  The theorem at \<^verbatim>\<open>?x:numeric\<close> made from the empty registry and unified with \<^verbatim>\<open>int32\<close>: a
  second \<^verbatim>\<open>?x:numeric\<close> made while the box is bound holds the same box, succeeds against
  \<^verbatim>\<open>int32\<close> and fails against \<^verbatim>\<open>int64\<close>, and clearing it unbinds the box.
\<close>

theorem shared_binding_cell_witness:
  "tvariable ''x'' (Some Numeric) empty_state = (TVariable ''x'' (Some Numeric) 0, unbound_x)
   \<and> named_boxes (bound_x TInt32) ''x'' = Some 0
   \<and> tvariable ''x'' (Some Numeric) (bound_x TInt32)
       = (TVariable ''x'' (Some Numeric) 0, bound_x TInt32)
   \<and> heap unbound_x 0 = None \<and> \<not> condf_rejects (Some Numeric) TInt32
   \<and> unify (\<lambda>n m s. (Inr None, s)) (TVariable ''x'' (Some Numeric) 0) TInt32 unbound_x
       = (Inr (Some True), bound_x TInt32)
   \<and> heap (bound_x TInt32) 0 = Some TInt32
   \<and> unify (\<lambda>n m s. (Inr None, s)) (TVariable ''x'' (Some Numeric) 0) TInt32 (bound_x TInt32)
       = (Inr (Some True), bound_x TInt32)
   \<and> unify (\<lambda>n m s. (Inr None, s)) (TVariable ''x'' (Some Numeric) 0) TInt64 (bound_x TInt32)
       = (Inr (Some False), bound_x TInt32)
   \<and> clear (\<lambda>n s. s) (TVariable ''x'' (Some Numeric) 0) (bound_x TInt32) = unbound_x"
proof -
  let ?nu = "\<lambda>(n::nat_base) (m::nat_base) (s::state). (Inr None :: error + pyres, s)"
  let ?nc = "\<lambda>(n::nat_base) (s::state). s"
  let ?x = "TVariable ''x'' (Some Numeric) 0"
  have a1: "tvariable ''x'' (Some Numeric) empty_state = (?x, unbound_x)"
    by (rule unbound_x_reached)
  have u: "heap unbound_x 0 = None" by (simp add: unbound_x_def)
  have h: "heap (bound_x TInt32) 0 = Some TInt32" by (simp add: bound_x_def)
  have r: "named_boxes (bound_x TInt32) ''x'' = Some 0" by (simp add: bound_x_def)
  have ok: "\<not> condf_rejects (Some Numeric) TInt32"
    by (simp add: condf_rejects_def truthy_def is_numeric_def)
  have ok': "\<not> condf_rejects (Some Numeric) TInt64"
    by (simp add: condf_rejects_def truthy_def is_numeric_def)
  have bx: "unbound_x\<lparr>heap := (heap unbound_x)(0 := Some TInt32)\<rparr> = bound_x TInt32"
    by (simp add: unbound_x_def bound_x_def)
  have ux: "(bound_x TInt32)\<lparr>heap := (heap (bound_x TInt32))(0 := None)\<rparr> = unbound_x"
    by (simp add: unbound_x_def bound_x_def)
  from shared_binding_cell [OF a1, where t = TInt32 and nu = ?nu and nc = ?nc
      and ?c2.0 = "Some Numeric"]
  obtain b where b: "?x = TVariable ''x'' (Some Numeric) b"
    and again: "\<And>s'. named_boxes s' ''x'' = Some b \<Longrightarrow>
        tvariable ''x'' (Some Numeric) s' = (TVariable ''x'' (Some Numeric) b, s')"
    and bind: "heap unbound_x b = None \<and> \<not> condf_rejects (Some Numeric) TInt32 \<longrightarrow>
        unify ?nu ?x TInt32 unbound_x
          = (Inr (Some True), unbound_x\<lparr>heap := (heap unbound_x)(b := Some TInt32)\<rparr>)"
    and bound: "\<And>s'. heap s' b = Some TInt32 \<Longrightarrow>
          (\<forall>t'. unify ?nu (TVariable ''x'' (Some Numeric) b) t' s' =
                (Inr (if condf_rejects (Some Numeric) t' then Some False else hail_eq TInt32 t'), s'))
          \<and> clear ?nc ?x s' = s'\<lparr>heap := (heap s')(b := None)\<rparr>"
    by blast
  from b have b0: "b = 0" by simp
  from again [of "bound_x TInt32"] r
  have c2: "tvariable ''x'' (Some Numeric) (bound_x TInt32) = (?x, bound_x TInt32)"
    unfolding b0 by simp
  from bind u ok
  have r1: "unify ?nu ?x TInt32 unbound_x = (Inr (Some True), bound_x TInt32)"
    unfolding b0 bx by blast
  from bound [of "bound_x TInt32"] h
  have all: "\<And>t'. unify ?nu ?x t' (bound_x TInt32) =
        (Inr (if condf_rejects (Some Numeric) t' then Some False else hail_eq TInt32 t'),
         bound_x TInt32)"
    and c: "clear ?nc ?x (bound_x TInt32) = unbound_x"
    unfolding b0 ux by blast+
  from all [of TInt32] all [of TInt64] ok ok' r1 a1 c2 u h r c show ?thesis by simp
qed

text \<open>
  Where the claim as stated fails. First: \<^verbatim>\<open>tvariable('x', None)\<close> and
  \<^verbatim>\<open>tvariable('x', 'struct')\<close> hold the same box; the first is unified with \<^verbatim>\<open>int32\<close> and
  binds it; \<^verbatim>\<open>int32 == int32\<close> is \<^verbatim>\<open>True\<close>; \<^verbatim>\<open>unify\<close> on the second against \<^verbatim>\<open>int32\<close>
  returns \<^verbatim>\<open>False\<close>, since its constraint rejects \<^verbatim>\<open>int32\<close>. Second: with the box bound to
  the type variable \<^verbatim>\<open>?y\<close>, \<^verbatim>\<open>unify\<close> on an unconstrained variable of the name against that
  same \<^verbatim>\<open>?y\<close> returns \<^verbatim>\<open>None\<close>, since \<^verbatim>\<open>==\<close> on a type variable returns \<^verbatim>\<open>None\<close>.
\<close>

theorem shared_binding_cell_counterexample:
  "tvariable ''x'' None empty_state = (TVariable ''x'' None 0, unbound_x)
   \<and> tvariable ''x'' (Some CStruct) unbound_x = (TVariable ''x'' (Some CStruct) 0, unbound_x)
   \<and> unify (\<lambda>n m s. (Inr None, s)) (TVariable ''x'' None 0) TInt32 unbound_x
       = (Inr (Some True), bound_x TInt32)
   \<and> tvariable ''x'' (Some CStruct) (bound_x TInt32)
       = (TVariable ''x'' (Some CStruct) 0, bound_x TInt32)
   \<and> hail_eq TInt32 TInt32 = Some True
   \<and> unify (\<lambda>n m s. (Inr None, s)) (TVariable ''x'' (Some CStruct) 0) TInt32 (bound_x TInt32)
       = (Inr (Some False), bound_x TInt32)
   \<and> unify (\<lambda>n m s. (Inr None, s)) (TVariable ''x'' None 0) (TVariable ''y'' None 1) unbound_x
       = (Inr (Some True), bound_x (TVariable ''y'' None 1))
   \<and> unify (\<lambda>n m s. (Inr None, s)) (TVariable ''x'' None 0) (TVariable ''y'' None 1)
         (bound_x (TVariable ''y'' None 1))
       = (Inr None, bound_x (TVariable ''y'' None 1))"
  by (simp add: unbound_x_reached unbound_x_tvariable bound_x_tvariable)
     (simp add: bound_x_def unbound_x_def box_unify_def condf_rejects_def truthy_def)

section \<open>Unification of structs and unions\<close>

text \<open>\<^verbatim>\<open>tstruct.unify\<close> goes by position: the same fields in another order do not unify.\<close>

lemma tstruct_unify_positional_example:
  "unify nu (TStruct [(''a'', TInt32), (''b'', TStr)])
            (TStruct [(''b'', TStr), (''a'', TInt32)]) s = (Inr (Some False), s)
   \<and> unify nu (TStruct [(''a'', TInt32), (''b'', TStr)])
              (TStruct [(''a'', TInt32), (''b'', TStr)]) s = (Inr (Some True), s)
   \<and> unify nu (TStruct [(''a'', TInt32)]) (TStruct [(''a'', TInt32), (''b'', TStr)]) s
       = (Inr (Some False), s)
   \<and> unify nu (TStruct [(''a'', TInt32)]) TInt32 s = (Inr (Some False), s)"
  by (simp add: truthy_def)

text \<open>What \<^verbatim>\<open>tstruct.unify\<close> returns, when it returns, is \<^verbatim>\<open>True\<close> or \<^verbatim>\<open>False\<close>.\<close>

lemma unify_fields_bool:
  "unify_fields nu fs gs s = (Inr r, s') \<Longrightarrow> r = Some True \<or> r = Some False"
proof (induction fs arbitrary: gs s)
  case Nil
  then show ?case by simp
next
  case (Cons x fs)
  obtain f1 t1 where x: "x = (f1, t1)" by (cases x)
  show ?case
  proof (cases gs)
    case Nil
    with Cons.prems show ?thesis by simp
  next
    case (Cons y gs')
    obtain f2 t2 where y: "y = (f2, t2)" by (cases y)
    from Cons.prems x y Cons Cons.IH show ?thesis
      by (auto split: if_splits prod.splits sum.splits)
  qed
qed

lemma tstruct_unify_bool:
  "unify nu (TStruct fs) t s = (Inr r, s') \<Longrightarrow> r = Some True \<or> r = Some False"
  by (cases t) (auto split: if_splits dest: unify_fields_bool)

text \<open>
  C7. \<^verbatim>\<open>tunion.unify\<close> raises \<^verbatim>\<open>NameError\<close> on every candidate, also on the union itself,
  where the claim has it return \<^verbatim>\<open>True\<close>; \<^verbatim>\<open>tstruct.unify\<close>, the method it was written
  after, returns \<^verbatim>\<open>True\<close> on the struct with the same field.
\<close>

theorem tunion_unify_raises:
  "unify nu (TUnion fs) t s = (Inl NameError, s)
   \<and> unify nu (TUnion [(''a'', TInt32)]) (TUnion [(''a'', TInt32)]) s = (Inl NameError, s)
   \<and> unify nu (TStruct [(''a'', TInt32)]) (TStruct [(''a'', TInt32)]) s = (Inr (Some True), s)"
  by (simp add: truthy_def)

section \<open>The JSON conversion of null, floats and dicts\<close>

text \<open>
  C3. At every type, \<^verbatim>\<open>_convert_to_json_na\<close> returns \<^verbatim>\<open>None\<close> on \<^verbatim>\<open>None\<close> and so does
  \<^verbatim>\<open>_convert_from_json_na\<close>, whatever the conversion of the type itself would do (that of
  \<^verbatim>\<open>float64\<close> raises \<^verbatim>\<open>TypeError\<close> on \<^verbatim>\<open>None\<close>, and no operation outside the sources is
  consulted); so decoding the encoding of \<^verbatim>\<open>None\<close> gives \<^verbatim>\<open>None\<close>.
\<close>

theorem null_passes_through:
  "convert_to_json_na ext t VNone = Inr VNone
   \<and> convert_from_json_na ext t VNone = Inr VNone
   \<and> bind_err (convert_to_json_na ext t VNone) (convert_from_json_na ext t) = Inr VNone
   \<and> convert_to_json ext TFloat64 VNone = Inl TypeError
   \<and> convert_from_json ext TFloat64 VNone = Inl TypeError"
  by (simp add: bind_err_def math_isfinite_def py_float_def)

subsection \<open>Floats\<close>

lemma nonfinite_consts:
  "\<not> isfinite64 pos_inf" "\<not> isfinite64 neg_inf" "\<not> isfinite64 quiet_nan"
  "isnan64 quiet_nan" "pos_inf \<noteq> neg_inf"
  by (simp_all add: isfinite64_def isnan64_def pos_inf_def neg_inf_def quiet_nan_def)

lemma lower_letters:
  "lower CHR ''I'' = CHR ''i''" "lower CHR ''N'' = CHR ''n''" "lower CHR ''a'' = CHR ''a''"
  "lower CHR ''n'' = CHR ''n''" "lower CHR ''i'' = CHR ''i''" "lower CHR ''f'' = CHR ''f''"
  "lower CHR ''t'' = CHR ''t''" "lower CHR ''y'' = CHR ''y''" "lower CHR ''-'' = CHR ''-''"
  by code_simp+

lemma float_of_str_nonfinite:
  "float_of_str ext ''inf'' = Inr pos_inf"
  "float_of_str ext ''-inf'' = Inr neg_inf"
  "float_of_str ext ''nan'' = Inr quiet_nan"
  "float_of_str ext ''Infinity'' = Inr pos_inf"
  "float_of_str ext ''-Infinity'' = Inr neg_inf"
  "float_of_str ext ''NaN'' = Inr quiet_nan"
  by (simp_all add: float_of_str_def strip_def is_space_def lower_letters Let_def)

lemma to_json_float:
  "convert_to_json ext TFloat32 (VFloat w) =
     Inr (if isfinite64 w then VFloat w else VStr (str_nonfinite w))"
  "convert_to_json ext TFloat64 (VFloat w) =
     Inr (if isfinite64 w then VFloat w else VStr (str_nonfinite w))"
  by (simp_all add: bind_err_def math_isfinite_def)

lemma from_json_str_nonfinite:
  assumes "\<not> isfinite64 w"
  shows "py_float ext (VStr (str_nonfinite w)) =
           Inr (VFloat (if w = pos_inf then pos_inf else if w = neg_inf then neg_inf else quiet_nan))"
  using nonfinite_consts(5)
  by (simp add: py_float_def str_nonfinite_def float_of_str_nonfinite)

text \<open>
  C4, as the code has it. At \<^verbatim>\<open>float32\<close> and \<^verbatim>\<open>float64\<close>, \<^verbatim>\<open>_convert_to_json\<close> returns a
  finite float as it is and, for a float that is not finite, the string \<^verbatim>\<open>str(x)\<close>, which
  is \<^verbatim>\<open>'inf'\<close>, \<^verbatim>\<open>'-inf'\<close> or \<^verbatim>\<open>'nan'\<close>. \<^verbatim>\<open>_convert_from_json\<close> returns a float as it is
  and reads each of the three strings back as the value it spells; it reads
  \<^verbatim>\<open>'Infinity'\<close>, \<^verbatim>\<open>'-Infinity'\<close> and \<^verbatim>\<open>'NaN'\<close> as the same values. So decoding the encoding
  of a float \<open>w\<close> returns a float \<open>w'\<close> with \<open>w' = w\<close> when \<open>w\<close> is finite or an infinity,
  and with both NaN when \<open>w\<close> is a NaN.
\<close>

theorem float_json_roundtrip:
  "t \<in> {TFloat32, TFloat64} \<longrightarrow>
     convert_to_json ext t (VFloat w) =
       Inr (if isfinite64 w then VFloat w else VStr (str_nonfinite w))
     \<and> str_nonfinite w \<in> {''inf'', ''-inf'', ''nan''}
     \<and> convert_from_json ext t (VFloat w) = Inr (VFloat w)
     \<and> convert_from_json ext t (VStr ''inf'') = Inr (VFloat pos_inf)
     \<and> convert_from_json ext t (VStr ''-inf'') = Inr (VFloat neg_inf)
     \<and> (\<exists>w'. convert_from_json ext t (VStr ''nan'') = Inr (VFloat w') \<and> isnan64 w')
     \<and> convert_from_json ext t (VStr ''Infinity'') = Inr (VFloat pos_inf)
     \<and> convert_from_json ext t (VStr ''-Infinity'') = Inr (VFloat neg_inf)
     \<and> (\<exists>w'. convert_from_json ext t (VStr ''NaN'') = Inr (VFloat w') \<and> isnan64 w')
     \<and> (\<exists>w'. bind_err (convert_to_json ext t (VFloat w)) (convert_from_json ext t) = Inr (VFloat w')
            \<and> (w' = w \<or> isnan64 w \<and> isnan64 w'))"
proof
  assume t: "t \<in> {TFloat32, TFloat64}"
  have enc: "convert_to_json ext t (VFloat w) =
       Inr (if isfinite64 w then VFloat w else VStr (str_nonfinite w))"
    using t to_json_float by auto
  have sp: "str_nonfinite w \<in> {''inf'', ''-inf'', ''nan''}"
    by (simp add: str_nonfinite_def)
  have dec: "convert_from_json ext t x = py_float ext x" for x
    using t by auto
  have rt: "\<exists>w'. bind_err (convert_to_json ext t (VFloat w)) (convert_from_json ext t) = Inr (VFloat w')
            \<and> (w' = w \<or> isnan64 w \<and> isnan64 w')"
  proof (cases "isfinite64 w")
    case True
    then show ?thesis by (simp add: enc dec bind_err_def py_float_def)
  next
    case False
    then have "bind_err (convert_to_json ext t (VFloat w)) (convert_from_json ext t) =
        Inr (VFloat (if w = pos_inf then pos_inf else if w = neg_inf then neg_inf else quiet_nan))"
      by (simp add: enc dec bind_err_def from_json_str_nonfinite)
    moreover have "(if w = pos_inf then pos_inf else if w = neg_inf then neg_inf else quiet_nan) = w
        \<or> isnan64 w \<and> isnan64 (if w = pos_inf then pos_inf else if w = neg_inf then neg_inf else quiet_nan)"
      using False nonfinite_consts(4) by (simp add: isnan64_def)
    ultimately show ?thesis by blast
  qed
  have strs: "convert_from_json ext t (VStr ''inf'') = Inr (VFloat pos_inf)"
    "convert_from_json ext t (VStr ''-inf'') = Inr (VFloat neg_inf)"
    "convert_from_json ext t (VStr ''nan'') = Inr (VFloat quiet_nan)"
    "convert_from_json ext t (VStr ''Infinity'') = Inr (VFloat pos_inf)"
    "convert_from_json ext t (VStr ''-Infinity'') = Inr (VFloat neg_inf)"
    "convert_from_json ext t (VStr ''NaN'') = Inr (VFloat quiet_nan)"
    by (simp_all add: dec py_float_def float_of_str_nonfinite)
  have fl: "convert_from_json ext t (VFloat w) = Inr (VFloat w)"
    by (simp add: dec py_float_def)
  from enc sp fl strs rt nonfinite_consts(4)
  show "convert_to_json ext t (VFloat w) =
       Inr (if isfinite64 w then VFloat w else VStr (str_nonfinite w))
     \<and> str_nonfinite w \<in> {''inf'', ''-inf'', ''nan''}
     \<and> convert_from_json ext t (VFloat w) = Inr (VFloat w)
     \<and> convert_from_json ext t (VStr ''inf'') = Inr (VFloat pos_inf)
     \<and> convert_from_json ext t (VStr ''-inf'') = Inr (VFloat neg_inf)
     \<and> (\<exists>w'. convert_from_json ext t (VStr ''nan'') = Inr (VFloat w') \<and> isnan64 w')
     \<and> convert_from_json ext t (VStr ''Infinity'') = Inr (VFloat pos_inf)
     \<and> convert_from_json ext t (VStr ''-Infinity'') = Inr (VFloat neg_inf)
     \<and> (\<exists>w'. convert_from_json ext t (VStr ''NaN'') = Inr (VFloat w') \<and> isnan64 w')
     \<and> (\<exists>w'. bind_err (convert_to_json ext t (VFloat w)) (convert_from_json ext t) = Inr (VFloat w')
            \<and> (w' = w \<or> isnan64 w \<and> isnan64 w'))"
    by blast
qed

text \<open>
  The theorem at \<^verbatim>\<open>float64\<close> and the floats 1.0, \<^verbatim>\<open>inf\<close>, \<^verbatim>\<open>-inf\<close> and \<^verbatim>\<open>nan\<close>.
\<close>

theorem float_json_roundtrip_witness:
  "TFloat64 \<in> {TFloat32, TFloat64}
   \<and> convert_to_json no_externals TFloat64 (VFloat 0x3FF0000000000000) = Inr (VFloat 0x3FF0000000000000)
   \<and> convert_to_json no_externals TFloat64 (VFloat pos_inf) = Inr (VStr ''inf'')
   \<and> convert_to_json no_externals TFloat64 (VFloat neg_inf) = Inr (VStr ''-inf'')
   \<and> convert_to_json no_externals TFloat64 (VFloat quiet_nan) = Inr (VStr ''nan'')
   \<and> convert_from_json no_externals TFloat64 (VStr ''inf'') = Inr (VFloat pos_inf)"
proof -
  have m: "TFloat64 \<in> {TFloat32, TFloat64}" by simp
  have f: "isfinite64 0x3FF0000000000000" by (simp add: isfinite64_def)
  have s: "str_nonfinite pos_inf = ''inf''" "str_nonfinite neg_inf = ''-inf''"
    "str_nonfinite quiet_nan = ''nan''"
    by (simp_all add: str_nonfinite_def pos_inf_def neg_inf_def quiet_nan_def)
  note th = float_json_roundtrip [where t = TFloat64 and ext = no_externals]
  from th [where w = "0x3FF0000000000000"] th [where w = pos_inf] th [where w = neg_inf]
    th [where w = quiet_nan] m f s nonfinite_consts
  show ?thesis by simp
qed

text \<open>
  Where the claim as stated fails: the strings that \<^verbatim>\<open>_convert_to_json\<close> returns for the
  NaN, the positive and the negative infinity are \<^verbatim>\<open>'nan'\<close>, \<^verbatim>\<open>'inf'\<close> and \<^verbatim>\<open>'-inf'\<close>, not
  the spellings \<^verbatim>\<open>'NaN'\<close>, \<^verbatim>\<open>'Infinity'\<close> and \<^verbatim>\<open>'-Infinity'\<close> of the claim.
\<close>

theorem float_json_spelling_counterexample:
  "convert_to_json no_externals TFloat64 (VFloat quiet_nan) = Inr (VStr ''nan'')
   \<and> convert_to_json no_externals TFloat64 (VFloat quiet_nan) \<noteq> Inr (VStr ''NaN'')
   \<and> convert_to_json no_externals TFloat64 (VFloat pos_inf) = Inr (VStr ''inf'')
   \<and> convert_to_json no_externals TFloat64 (VFloat pos_inf) \<noteq> Inr (VStr ''Infinity'')
   \<and> convert_to_json no_externals TFloat64 (VFloat neg_inf) = Inr (VStr ''-inf'')
   \<and> convert_to_json no_externals TFloat64 (VFloat neg_inf) \<noteq> Inr (VStr ''-Infinity'')"
proof -
  have n: "str_nonfinite quiet_nan = ''nan''" "str_nonfinite pos_inf = ''inf''"
    "str_nonfinite neg_inf = ''-inf''"
    by (simp_all add: str_nonfinite_def pos_inf_def neg_inf_def quiet_nan_def)
  show ?thesis unfolding to_json_float by (simp add: nonfinite_consts n)
qed

subsection \<open>Dicts\<close>

text \<open>
  The dict \<^verbatim>\<open>{1: "a", 2: "b"}\<close> at \<^verbatim>\<open>dict<int32, str>\<close>: an array of key/value objects in
  iteration order, which decodes to the same dict.
\<close>

lemma tdict_json_example:
  "convert_to_json ext (TDict TInt32 TStr) (VDict [(VInt 1, VStr ''a''), (VInt 2, VStr ''b'')])
     = Inr (VList [VDict [(VStr ''key'', VInt 1), (VStr ''value'', VStr ''a'')],
                   VDict [(VStr ''key'', VInt 2), (VStr ''value'', VStr ''b'')]])
   \<and> convert_from_json ext (TDict TInt32 TStr)
        (VList [VDict [(VStr ''key'', VInt 1), (VStr ''value'', VStr ''a'')],
                VDict [(VStr ''key'', VInt 2), (VStr ''value'', VStr ''b'')]])
     = Inr (VDict [(VInt 1, VStr ''a''), (VInt 2, VStr ''b'')])"
  by (simp add: bind_err_def py_items_def py_iter_def py_getitem_def scalar_eq_def as_int_def)

text \<open>
  C6. The dict \<^verbatim>\<open>{1: None}\<close> passes \<^verbatim>\<open>typecheck\<close> at \<^verbatim>\<open>dict<int32, float64>\<close>, and
  \<^verbatim>\<open>_convert_to_json\<close> raises \<^verbatim>\<open>TypeError\<close> on it where the claim has it return the array
  \<^verbatim>\<open>[{"key": 1, "value": null}]\<close>: \<^verbatim>\<open>tdict._convert_to_json\<close> passes the \<^verbatim>\<open>None\<close> to
  \<^verbatim>\<open>_tfloat64._convert_to_json\<close>, whose \<^verbatim>\<open>math.isfinite(None)\<close> raises. The array type, which
  calls \<^verbatim>\<open>_convert_to_json_na\<close>, encodes a \<^verbatim>\<open>None\<close> element as \<^verbatim>\<open>null\<close>, and \<^verbatim>\<open>tdict\<close>'s own
  decoder reads \<^verbatim>\<open>null\<close> back as \<^verbatim>\<open>None\<close>.
\<close>

theorem tdict_to_json_null_value:
  "typecheck ext (TDict TInt32 TFloat64) (VDict [(VInt 1, VNone)]) = Inr ()
   \<and> convert_to_json ext (TDict TInt32 TFloat64) (VDict [(VInt 1, VNone)]) = Inl TypeError
   \<and> convert_to_json ext (TArray TFloat64) (VList [VNone]) = Inr (VList [VNone])
   \<and> convert_from_json ext (TDict TInt32 TFloat64)
        (VList [VDict [(VStr ''key'', VInt 1), (VStr ''value'', VNone)]])
      = Inr (VDict [(VInt 1, VNone)])"
  by (simp add: typecheck_def check_def bind_err_def py_items_def py_iter_def py_getitem_def
      scalar_eq_def math_isfinite_def int_in_range_def as_int_def)

section \<open>The value check on falsy values\<close>

lemma typecheck_leaf:
  "typecheck ext TStr v = bind_err (typecheck_one_level ext TStr v) (\<lambda>_. Inr ())"
  by (simp add: typecheck_def check_def bind_err_def split: sum.splits)

lemma typecheck_tstruct:
  "typecheck ext (TStruct fs) v =
     bind_err (typecheck_one_level ext (TStruct fs) v) (\<lambda>_.
       bind_err (py_items v) (\<lambda>items.
         bind_err
           (mapM (\<lambda>(k, x). bind_err (struct_getitem fs k) (\<lambda>t. traverse ext (check ext) t x)) items)
           (\<lambda>_. Inr ())))"
  by (simp add: typecheck_def check_def bind_err_def split: sum.splits)

lemma typecheck_ttuple:
  "typecheck ext (TTuple ts) v =
     bind_err (typecheck_one_level ext (TTuple ts) v) (\<lambda>_.
       bind_err (py_iter ext v) (\<lambda>elts.
         bind_err (mapM (\<lambda>(t, elt). traverse ext (check ext) t elt) (zip ts elts))
           (\<lambda>_. Inr ())))"
  by (simp add: typecheck_def check_def bind_err_def split: sum.splits)

lemma falsy_one_level:
  assumes "py_bool ext v = Inr False"
  shows "typecheck_one_level ext TStr v = Inr ()"
    and "typecheck_one_level ext (TStruct fs) v = Inr ()"
    and "typecheck_one_level ext (TTuple ts) v = Inr ()"
  using assms by (simp_all add: bind_err_def)

text \<open>
  C10, as the code has it. At \<^verbatim>\<open>str\<close>, struct and tuple types the one-level check accepts
  every falsy value, not only \<^verbatim>\<open>None\<close>: it is guarded by the truth value of the value.
  \<^verbatim>\<open>typecheck\<close> at \<^verbatim>\<open>str\<close> is that check alone and succeeds on every falsy value, so on 0.
  At a tuple type the traversal then iterates the value for \<^verbatim>\<open>zip\<close>: \<^verbatim>\<open>typecheck\<close> succeeds
  on a falsy value that iterates to nothing, as the string \<^verbatim>\<open>""\<close>, and raises what the
  iteration raises on one that is not iterable, \<^verbatim>\<open>TypeError\<close> on 0. At a struct type the
  traversal calls \<^verbatim>\<open>obj.items()\<close>: \<^verbatim>\<open>typecheck\<close> succeeds on a falsy value whose
  \<^verbatim>\<open>items()\<close> is empty, as the dict \<^verbatim>\<open>{}\<close>, and raises what that call raises on a falsy
  value without it; on the list \<^verbatim>\<open>[]\<close> the one-level check passes and \<^verbatim>\<open>typecheck\<close>
  raises \<^verbatim>\<open>AttributeError\<close>.
\<close>

theorem falsy_skips_one_level_check:
  "(py_bool ext v = Inr False \<longrightarrow>
      typecheck_one_level ext TStr v = Inr ()
      \<and> typecheck_one_level ext (TStruct fs) v = Inr ()
      \<and> typecheck_one_level ext (TTuple ts) v = Inr ()
      \<and> typecheck ext TStr v = Inr ()
      \<and> (py_iter ext v = Inr [] \<longrightarrow> typecheck ext (TTuple ts) v = Inr ())
      \<and> (\<forall>e. py_iter ext v = Inl e \<longrightarrow> typecheck ext (TTuple ts) v = Inl e)
      \<and> (py_items v = Inr [] \<longrightarrow> typecheck ext (TStruct fs) v = Inr ())
      \<and> (\<forall>e. py_items v = Inl e \<longrightarrow> typecheck ext (TStruct fs) v = Inl e))
   \<and> typecheck ext TStr (VInt 0) = Inr ()
   \<and> typecheck ext (TTuple [TInt32]) (VStr []) = Inr ()
   \<and> typecheck ext (TTuple [TInt32]) (VInt 0) = Inl TypeError
   \<and> typecheck ext (TStruct [(''a'', TInt32)]) (VDict []) = Inr ()
   \<and> typecheck_one_level ext (TStruct [(''a'', TInt32)]) (VList []) = Inr ()
   \<and> typecheck ext (TStruct [(''a'', TInt32)]) (VList []) = Inl AttributeError"
proof -
  have gen: "typecheck_one_level ext TStr v = Inr ()
      \<and> typecheck_one_level ext (TStruct fs) v = Inr ()
      \<and> typecheck_one_level ext (TTuple ts) v = Inr ()
      \<and> typecheck ext TStr v = Inr ()
      \<and> (py_iter ext v = Inr [] \<longrightarrow> typecheck ext (TTuple ts) v = Inr ())
      \<and> (\<forall>e. py_iter ext v = Inl e \<longrightarrow> typecheck ext (TTuple ts) v = Inl e)
      \<and> (py_items v = Inr [] \<longrightarrow> typecheck ext (TStruct fs) v = Inr ())
      \<and> (\<forall>e. py_items v = Inl e \<longrightarrow> typecheck ext (TStruct fs) v = Inl e)"
    if f: "py_bool ext v = Inr False"
  proof -
    note one = falsy_one_level [OF f]
    have s: "typecheck ext TStr v = Inr ()"
      unfolding typecheck_leaf one(1) by (simp add: bind_err_def)
    have t1: "typecheck ext (TTuple ts) v = Inr ()" if "py_iter ext v = Inr []"
      unfolding typecheck_ttuple one(3) using that by (simp add: bind_err_def)
    have t2: "typecheck ext (TTuple ts) v = Inl e" if "py_iter ext v = Inl e" for e
      unfolding typecheck_ttuple one(3) using that by (simp add: bind_err_def)
    have s1: "typecheck ext (TStruct fs) v = Inr ()" if "py_items v = Inr []"
      unfolding typecheck_tstruct one(2) using that by (simp add: bind_err_def)
    have s2: "typecheck ext (TStruct fs) v = Inl e" if "py_items v = Inl e" for e
      unfolding typecheck_tstruct one(2) using that by (simp add: bind_err_def)
    from one s t1 t2 s1 s2 show ?thesis by blast
  qed
  have ex: "typecheck ext TStr (VInt 0) = Inr ()"
    "typecheck ext (TTuple [TInt32]) (VStr []) = Inr ()"
    "typecheck ext (TTuple [TInt32]) (VInt 0) = Inl TypeError"
    "typecheck ext (TStruct [(''a'', TInt32)]) (VDict []) = Inr ()"
    "typecheck_one_level ext (TStruct [(''a'', TInt32)]) (VList []) = Inr ()"
    "typecheck ext (TStruct [(''a'', TInt32)]) (VList []) = Inl AttributeError"
    by (simp_all add: typecheck_def check_def bind_err_def py_bool_def py_iter_def py_items_def)
  from gen ex show ?thesis by blast
qed

text \<open>The theorem at the falsy values 0, \<^verbatim>\<open>""\<close> and \<^verbatim>\<open>{}\<close>.\<close>

theorem falsy_skips_one_level_check_witness:
  "py_bool no_externals (VInt 0) = Inr False
   \<and> typecheck_one_level no_externals (TStruct [(''a'', TInt32)]) (VInt 0) = Inr ()
   \<and> typecheck_one_level no_externals (TTuple [TInt32]) (VInt 0) = Inr ()
   \<and> typecheck no_externals TStr (VInt 0) = Inr ()
   \<and> py_items (VInt 0) = Inl AttributeError
   \<and> typecheck no_externals (TStruct [(''a'', TInt32)]) (VInt 0) = Inl AttributeError
   \<and> py_iter no_externals (VInt 0) = Inl TypeError
   \<and> typecheck no_externals (TTuple [TInt32]) (VInt 0) = Inl TypeError
   \<and> py_bool no_externals (VStr []) = Inr False
   \<and> py_iter no_externals (VStr []) = Inr []
   \<and> typecheck no_externals (TTuple [TInt32]) (VStr []) = Inr ()
   \<and> py_bool no_externals (VDict []) = Inr False
   \<and> py_items (VDict []) = Inr []
   \<and> typecheck no_externals (TStruct [(''a'', TInt32)]) (VDict []) = Inr ()"
proof -
  have b: "py_bool no_externals (VInt 0) = Inr False" "py_bool no_externals (VStr []) = Inr False"
    "py_bool no_externals (VDict []) = Inr False"
    by (simp_all add: py_bool_def)
  have i: "py_iter no_externals (VInt 0) = Inl TypeError" "py_iter no_externals (VStr []) = Inr []"
    "py_items (VInt 0) = Inl AttributeError" "py_items (VDict []) = Inr []"
    by (simp_all add: py_iter_def py_items_def)
  note th = falsy_skips_one_level_check [where ext = no_externals
      and fs = "[(''a'', TInt32)]" and ts = "[TInt32]"]
  from th [where v = "VInt 0"] th [where v = "VStr []"] th [where v = "VDict []"] b i
  show ?thesis by simp
qed

text \<open>
  Where the claim as stated fails: the list \<^verbatim>\<open>[]\<close> is falsy, and \<^verbatim>\<open>typecheck\<close> at
  \<^verbatim>\<open>struct{a: int32}\<close> does not succeed on it: it raises \<^verbatim>\<open>AttributeError\<close>.
\<close>

theorem typecheck_struct_empty_list_counterexample:
  "py_bool no_externals (VList []) = Inr False
   \<and> typecheck no_externals (TStruct [(''a'', TInt32)]) (VList []) = Inl AttributeError
   \<and> typecheck no_externals (TStruct []) (VList []) = Inl AttributeError"
  by (simp add: typecheck_def check_def bind_err_def py_bool_def py_items_def)

section \<open>Parsing the display form\<close>

text \<open>
  Display forms that the grammar reads back: \<^verbatim>\<open>array<int32>\<close>, a struct with an escaped
  field name, an ndarray.
\<close>

lemma dtype_reverses_examples:
  "str_of (TArray TInt32) = Inr ''array<int32>''
   \<and> dtype ''array<int32>'' = Some (Inr (TArray TInt32))
   \<and> str_of (TStruct [(''a'', TInt32), (''b b'', TDict TStr TBool)])
       = Inr (''struct{a: int32, '' @ [backtick] @ ''b b'' @ [backtick] @ '': dict<str, bool>}'')
   \<and> dtype (''struct{a: int32, '' @ [backtick] @ ''b b'' @ [backtick] @ '': dict<str, bool>}'')
       = Some (Inr (TStruct [(''a'', TInt32), (''b b'', TDict TStr TBool)]))
   \<and> str_of (TNDArray TInt32 (NatLiteral 2)) = Inr ''ndarray<int32, 2>''
   \<and> dtype ''ndarray<int32, 2>'' = Some (Inr (TNDArray TInt32 (NatLiteral 2)))"
  by code_simp

text \<open>
  \<^verbatim>\<open>void\<close> and the type variables have a display form and no production in the grammar.
\<close>

lemma dtype_void_tvariable:
  "str_of TVoid = Inr ''void'' \<and> dtype ''void'' = Some (Inl ParseError)
   \<and> str_of (TVariable ''x'' (Some Numeric) 0) = Inr ''?x:numeric''
   \<and> dtype ''?x:numeric'' = Some (Inl ParseError)"
  by code_simp




end
